theory Spec2Isabelle
  imports Main
begin

section \<open>JavaScript values as the handlers see them\<close>

text \<open>
  The four form handlers (community application, newsletter, named newsletter, merch
  waitlist) read a JSON body with \<^verbatim>\<open>await request.json()\<close> and test its
  properties with JavaScript's truthiness, \<^verbatim>\<open>typeof\<close> and string methods.
  A parsed JSON value is a \<open>json\<close>; a property that is absent reads as
  \<^verbatim>\<open>undefined\<close>, which is \<open>None\<close> of \<open>json option\<close>.
  A number only ever has its truthiness tested by the handlers, so an integer stands for
  it. Strings are lists of code units below 256.
\<close>

datatype json =
    JNull
  | JBool bool
  | JNum int
  | JStr string
  | JArr "json list"
  | JObj "(string \<times> json) list"

text \<open>\<^verbatim>\<open>!!v\<close>: undefined, null, false, 0 and the empty string are falsy.\<close>

fun truthy :: "json option \<Rightarrow> bool" where
  "truthy None = False"
| "truthy (Some JNull) = False"
| "truthy (Some (JBool b)) = b"
| "truthy (Some (JNum n)) = (n \<noteq> 0)"
| "truthy (Some (JStr s)) = (s \<noteq> [])"
| "truthy (Some (JArr xs)) = True"
| "truthy (Some (JObj kvs)) = True"

text \<open>
  \<^verbatim>\<open>v.key\<close> on a value that is not null: an object yields its own property,
  every other value (boolean, number, string, array) yields undefined for the keys the
  handlers read. Reading a property of null throws a TypeError; the handlers model that
  where they read.
\<close>

fun get_field :: "json \<Rightarrow> string \<Rightarrow> json option" where
  "get_field (JObj kvs) k = map_of kvs k"
| "get_field v k = None"

text \<open>\<^verbatim>\<open>v?.key\<close>: undefined when the receiver is undefined or null.\<close>

fun opt_field :: "json option \<Rightarrow> string \<Rightarrow> json option" where
  "opt_field None k = None"
| "opt_field (Some JNull) k = None"
| "opt_field (Some v) k = get_field v k"

text \<open>
  White space as \<^verbatim>\<open>String.prototype.trim\<close> and the regular expression class
  \<^verbatim>\<open>\s\<close> know it, among the code units below 256: tab, line feed, vertical tab,
  form feed, carriage return, space and the no-break space.
\<close>

definition is_space :: "char \<Rightarrow> bool" where
  "is_space c = (of_char c \<in> {9, 10, 11, 12, 13, 32, 160 :: nat})"

definition trim :: "string \<Rightarrow> string" where
  "trim s = rev (dropWhile is_space (rev (dropWhile is_space s)))"

text \<open>\<^verbatim>\<open>String.prototype.toLowerCase\<close> on code units below 256.\<close>

definition lower_char :: "char \<Rightarrow> char" where
  "lower_char c =
     (let n = (of_char c :: nat)
      in if (65 \<le> n \<and> n \<le> 90) \<or> (192 \<le> n \<and> n \<le> 222 \<and> n \<noteq> 215)
         then char_of (n + 32) else c)"

definition toLowerCase :: "string \<Rightarrow> string" where
  "toLowerCase s = map lower_char s"

text \<open>\<^verbatim>\<open>hay.includes(needle)\<close>.\<close>

fun str_includes :: "string \<Rightarrow> string \<Rightarrow> bool" where
  "str_includes [] needle = (needle = [])"
| "str_includes (c # cs) needle =
     (take (length needle) (c # cs) = needle \<or> str_includes cs needle)"

text \<open>
  An environment variable reads as a string or as undefined; \<^verbatim>\<open>!v\<close> holds
  for undefined and for the empty string. The environment is the variables by name
  (\<^verbatim>\<open>process.env\<close>, \<^verbatim>\<open>import.meta.env\<close>) and the build flag
  \<^verbatim>\<open>import.meta.env.PROD\<close>.
\<close>

definition present :: "string option \<Rightarrow> bool" where
  "present v = (case v of None \<Rightarrow> False | Some s \<Rightarrow> s \<noteq> [])"

record environment =
  vars :: "string \<Rightarrow> string option"
  isProduction :: bool

section \<open>The e-mail pattern\<close>

text \<open>
  \<^verbatim>\<open>/^[^\s@]+@[^\s@]+\.[^\s@]+$/.test(email)\<close>. The pattern is a sequence of
  single characters and one-or-more repetitions of a character class, anchored at both
  ends; \<open>matches\<close> is the backtracking matcher for such sequences.
\<close>

datatype item = One "char \<Rightarrow> bool" | Many1 "char \<Rightarrow> bool"

fun matches :: "item list \<Rightarrow> string \<Rightarrow> bool" where
  "matches [] s = (s = [])"
| "matches (One p # r) [] = False"
| "matches (One p # r) (c # s) = (p c \<and> matches r s)"
| "matches (Many1 p # r) [] = False"
| "matches (Many1 p # r) (c # s) = (p c \<and> (matches r s \<or> matches (Many1 p # r) s))"

definition not_space_at :: "char \<Rightarrow> bool" where
  "not_space_at c = (\<not> is_space c \<and> c \<noteq> CHR ''@'')"

definition isValidEmail :: "string \<Rightarrow> bool" where
  "isValidEmail email =
     matches [Many1 not_space_at, One (\<lambda>c. c = CHR ''@''), Many1 not_space_at,
              One (\<lambda>c. c = CHR ''.''), Many1 not_space_at] email"

section \<open>The rate limiter of the newsletter handlers\<close>

text \<open>
  \<^verbatim>\<open>const rateLimitMap = new Map<string, { count: number; resetAt: number }>()\<close>
  is process-wide state; \<open>checkRateLimit\<close> takes the map and the value of
  \<^verbatim>\<open>Date.now()\<close> and returns its verdict with the map as it leaves it. The two
  newsletter modules define the same function, each over a map of its own.
\<close>

record rl_record =
  count :: int
  resetAt :: int

type_synonym rateLimitMap = "string \<Rightarrow> rl_record option"

definition RATE_LIMIT_REQUESTS :: int where
  "RATE_LIMIT_REQUESTS = 5"

definition RATE_LIMIT_WINDOW_MS :: int where
  "RATE_LIMIT_WINDOW_MS = 60 * 1000"

definition checkRateLimit :: "int \<Rightarrow> string \<Rightarrow> rateLimitMap \<Rightarrow> bool \<times> rateLimitMap" where
  "checkRateLimit now ip m =
     (case m ip of
        None \<Rightarrow> (True, m(ip \<mapsto> \<lparr>count = 1, resetAt = now + RATE_LIMIT_WINDOW_MS\<rparr>))
      | Some rec \<Rightarrow>
          if now > resetAt rec
          then (True, m(ip \<mapsto> \<lparr>count = 1, resetAt = now + RATE_LIMIT_WINDOW_MS\<rparr>))
          else if count rec \<ge> RATE_LIMIT_REQUESTS then (False, m)
          else (True, m(ip \<mapsto> rec\<lparr>count := count rec + 1\<rparr>)))"

text \<open>A sequence of calls, each with its clock reading and its key.\<close>

fun run_calls :: "(int \<times> string) list \<Rightarrow> rateLimitMap \<Rightarrow> rateLimitMap" where
  "run_calls [] m = m"
| "run_calls ((now, ip) # cs) m = run_calls cs (snd (checkRateLimit now ip m))"


section \<open>Requests, responses and the outside world\<close>

text \<open>
  A handler returns one HTTP response, or an exception escapes it (\<open>Threw\<close>: the
  TypeError of a property read on null or of a call of something that is not a function,
  outside every \<^verbatim>\<open>try\<close>). A response is its status and the members of the
  JSON object in its body.
\<close>

datatype response = Response (status: nat) (members: "(string \<times> json) list")

datatype outcome = Responded response | Threw

definition json_response :: "nat \<Rightarrow> (string \<times> json) list \<Rightarrow> outcome" where
  "json_response st ms = Responded (Response st ms)"

text \<open>The two shapes of the newsletter and merch handlers' bodies.\<close>

definition success_true :: outcome where
  "success_true = json_response 200 [(''success'', JBool True)]"

definition failure :: "nat \<Rightarrow> string \<Rightarrow> outcome" where
  "failure st msg = json_response st [(''success'', JBool False), (''error'', JStr msg)]"

text \<open>The shape of the community handler's error bodies.\<close>

definition error_only :: "nat \<Rightarrow> string \<Rightarrow> outcome" where
  "error_only st msg = json_response st [(''error'', JStr msg)]"

text \<open>
  What a handler does besides responding, in order: the outbound \<^verbatim>\<open>fetch\<close>
  calls (to the Airtable record store, the Slack webhook, the Resend e-mail API, the
  EmailOctopus contact list) and the console lines, each by its first argument.
\<close>

datatype target = Airtable | Slack | Resend | EmailOctopus

datatype effect = Fetch target | ConsoleError string | ConsoleLog string | ConsoleWarn string

fun fetches :: "effect list \<Rightarrow> target list" where
  "fetches [] = []"
| "fetches (Fetch t # es) = t # fetches es"
| "fetches (e # es) = fetches es"

text \<open>
  What an outbound call comes back with is an input of the model. \<open>FetchRejected\<close>:
  the \<^verbatim>\<open>fetch\<close> promise, or the promise that reads the response's body
  (\<^verbatim>\<open>response.json()\<close>, \<^verbatim>\<open>response.text()\<close>), rejected; every handler
  has both awaits in the same \<^verbatim>\<open>try\<close>. \<open>Fetched\<close>: a response with its
  \<^verbatim>\<open>ok\<close> flag, its status and its body as the handler reads it.
\<close>

datatype 'b fetch_result = FetchRejected | Fetched (res_ok: bool) (res_status: nat) (res_body: 'b)

text \<open>
  A request: its headers, the origin of its own URL, and what
  \<^verbatim>\<open>await request.json()\<close> yields (\<open>None\<close> when it rejects).
\<close>

record request =
  headers :: "string \<Rightarrow> string option"
  url_origin :: string
  parsed :: "json option"

text \<open>
  \<^verbatim>\<open>typeof v === 'string'\<close>, with the string: \<open>None\<close> for undefined and for
  every value that is not a string.
\<close>

fun as_string :: "json option \<Rightarrow> string option" where
  "as_string (Some (JStr s)) = Some s"
| "as_string v = None"

text \<open>
  The test of a required text field:
  \<^verbatim>\<open>!v || typeof v !== 'string' || v.trim().length === 0\<close>.
  A value that is not a string is falsy or fails the \<^verbatim>\<open>typeof\<close> test.
\<close>

definition not_filled :: "json option \<Rightarrow> bool" where
  "not_filled v =
     (case as_string v of None \<Rightarrow> True | Some s \<Rightarrow> s = [] \<or> length (trim s) = 0)"

text \<open>
  The honeypot of the newsletter and merch handlers, on a body that is not null:
  \<^verbatim>\<open>body.company && body.company.trim().length > 0\<close>. \<open>None\<close>: the value is
  truthy and not a string, so \<^verbatim>\<open>trim\<close> is not a function and a TypeError
  escapes the handler.
\<close>

definition honeypot :: "json \<Rightarrow> bool option" where
  "honeypot body =
     (let company = get_field body ''company''
      in if \<not> truthy company then Some False
         else (case as_string company of
                 Some s \<Rightarrow> Some (length (trim s) > 0)
               | None \<Rightarrow> None))"

section \<open>The community application handler\<close>

text \<open>
  The second revision in \<^verbatim>\<open>src/pages/api/community-apply.ts\<close> (the one with
  the Slack and Resend notifications; the first revision is the same handler without
  them). \<^verbatim>\<open>new URL(origin).origin\<close> is the platform's; it is the parameter
  \<open>URL_origin\<close>, \<open>None\<close> where the constructor throws.
\<close>

datatype origin_verdict = OriginOk | OriginForbidden | OriginThrows

definition origin_check :: "(string \<Rightarrow> string option) \<Rightarrow> request \<Rightarrow> origin_verdict" where
  "origin_check URL_origin req =
     (case headers req ''Origin'' of
        None \<Rightarrow> OriginOk
      | Some origin \<Rightarrow>
          if origin = [] then OriginOk
          else (case URL_origin origin of
                  None \<Rightarrow> OriginThrows
                | Some originUrl \<Rightarrow>
                    if originUrl \<noteq> url_origin req then OriginForbidden else OriginOk))"

definition missingVars :: "environment \<Rightarrow> string list" where
  "missingVars env =
     (if \<not> present (vars env ''AIRTABLE_PAT'') then [''AIRTABLE_PAT''] else []) @
     (if \<not> present (vars env ''AIRTABLE_BASE_ID'') then [''AIRTABLE_BASE_ID''] else []) @
     (if \<not> present (vars env ''AIRTABLE_TABLE_ID'') \<and> \<not> present (vars env ''AIRTABLE_TABLE_NAME'')
      then [''AIRTABLE_TABLE_ID or AIRTABLE_TABLE_NAME''] else [])"

text \<open>
  \<^verbatim>\<open>!body.email || typeof body.email !== 'string' || !body.email.includes('@')\<close>
\<close>

definition community_email_bad :: "json option \<Rightarrow> bool" where
  "community_email_bad v =
     (case as_string v of None \<Rightarrow> True | Some s \<Rightarrow> s = [] \<or> \<not> str_includes s ''@'')"

definition slack_community :: "environment \<Rightarrow> string fetch_result \<Rightarrow> effect list" where
  "slack_community env slack =
     (if present (vars env ''SLACK_WEBHOOK_URL'')
      then Fetch Slack #
        (case slack of
           FetchRejected \<Rightarrow> [ConsoleError ''Error sending Slack notification:'']
         | Fetched good st txt \<Rightarrow>
             if \<not> good then [ConsoleError ''Slack webhook error:'']
             else [ConsoleLog ''Slack notification sent successfully''])
      else [])"

definition resend_community :: "environment \<Rightarrow> json \<Rightarrow> string fetch_result \<Rightarrow> effect list" where
  "resend_community env body resend =
     (if present (vars env ''RESEND_API_KEY'') \<and> present (vars env ''FROM_EMAIL'') \<and>
         truthy (get_field body ''email'')
      then Fetch Resend #
        (case resend of
           FetchRejected \<Rightarrow> [ConsoleError ''Error sending confirmation email:'']
         | Fetched good st txt \<Rightarrow>
             if \<not> good then [ConsoleError ''Resend API error:'']
             else [ConsoleLog ''Confirmation email sent successfully''])
      else [])"

text \<open>
  The \<^verbatim>\<open>try\<close> block of the handler: the write to Airtable and, once it has
  succeeded, the two notifications, each in a \<^verbatim>\<open>try\<close> of its own.
\<close>

definition community_write ::
  "environment \<Rightarrow> json \<Rightarrow> string fetch_result \<Rightarrow> string fetch_result \<Rightarrow> string fetch_result \<Rightarrow>
   outcome \<times> effect list" where
  "community_write env body airtable slack resend =
     (case airtable of
        FetchRejected \<Rightarrow>
          (error_only 500 ''Internal server error'',
           [Fetch Airtable, ConsoleError ''Error submitting to Airtable:''])
      | Fetched good st txt \<Rightarrow>
          if \<not> good
          then (error_only 502 ''Failed to submit application'',
                [Fetch Airtable, ConsoleError ''Airtable API error:''])
          else (json_response 200 [(''ok'', JBool True)],
                [Fetch Airtable] @ slack_community env slack @ resend_community env body resend))"

text \<open>
  \<^verbatim>\<open>String(v)\<close> throws a TypeError where the conversion to a primitive finds
  no callable \<^verbatim>\<open>toString\<close>: on a parsed object with a member of that name
  (no JSON value is callable, and the inherited \<^verbatim>\<open>valueOf\<close> returns the
  object), and on an array that holds such a value, since an array is converted by
  joining the conversions of its elements.
\<close>

fun String_throws :: "json \<Rightarrow> bool" where
  "String_throws (JObj kvs) = (map_of kvs ''toString'' \<noteq> None)"
| "String_throws (JArr xs) = (\<exists>x\<in>set xs. String_throws x)"
| "String_throws v = False"

text \<open>
  The sanitising of the optional fields, between the validation and the
  \<^verbatim>\<open>try\<close> block: \<^verbatim>\<open>if (body.linkedinUrl) ... String(body.linkedinUrl).trim()\<close>
  and the same for the personal website, the phone number, the location, the degree and
  the motivation text;
  \<^verbatim>\<open>if (body.fields !== undefined)\<close> every element of the field list (the
  value itself when it is not an array) goes through \<^verbatim>\<open>String\<close>. The record
  it builds is not modelled; what decides the response is whether it throws.
\<close>

definition String_if_truthy_throws :: "json option \<Rightarrow> bool" where
  "String_if_truthy_throws v =
     (truthy v \<and> (case v of None \<Rightarrow> False | Some j \<Rightarrow> String_throws j))"

definition sanitize_throws :: "json \<Rightarrow> bool" where
  "sanitize_throws body =
     (String_if_truthy_throws (get_field body ''linkedinUrl'') \<or>
      String_if_truthy_throws (get_field body ''personalWebsite'') \<or>
      String_if_truthy_throws (get_field body ''phoneNumber'') \<or>
      String_if_truthy_throws (get_field body ''location'') \<or>
      String_if_truthy_throws (get_field body ''mostAdvancedDegree'') \<or>
      String_if_truthy_throws (get_field body ''whyTTB'') \<or>
      (case get_field body ''fields'' of None \<Rightarrow> False | Some v \<Rightarrow> String_throws v))"

text \<open>
  The handler. The sanitising stands outside every \<^verbatim>\<open>try\<close>, so a TypeError
  there escapes the handler before any outbound call. The conversions to text after the
  write (for the Slack message) are of values the sanitising has converted already, so
  they do not throw.
\<close>

definition community_POST ::
  "(string \<Rightarrow> string option) \<Rightarrow> environment \<Rightarrow> request \<Rightarrow>
   string fetch_result \<Rightarrow> string fetch_result \<Rightarrow> string fetch_result \<Rightarrow> outcome \<times> effect list" where
  "community_POST URL_origin env req airtable slack resend =
     (case origin_check URL_origin req of
        OriginThrows \<Rightarrow> (Threw, [])
      | OriginForbidden \<Rightarrow> (error_only 403 ''Forbidden'', [])
      | OriginOk \<Rightarrow>
          if length (missingVars env) > 0
          then (json_response 500
                  [(''error'', JStr ''Server configuration error''),
                   (''missing'', JArr (map JStr (missingVars env)))],
                [ConsoleLog ''Environment variables present:'',
                 ConsoleError ''Missing required environment variables:''])
          else
            let logged = ConsoleLog ''Environment variables present:'' #
                  (if present (vars env ''AIRTABLE_TABLE_ID'') then []
                   else [ConsoleWarn ''AIRTABLE_TABLE_ID is preferred over AIRTABLE_TABLE_NAME. Please update your environment variables.''])
            in
            (case parsed req of
               None \<Rightarrow> (error_only 400 ''Invalid JSON'', logged)
             | Some body \<Rightarrow>
                 if body = JNull then (Threw, logged)
                 else if not_filled (get_field body ''fullName'')
                 then (error_only 400 ''fullName is required'', logged)
                 else if community_email_bad (get_field body ''email'')
                 then (error_only 400 ''Valid email is required'', logged)
                 else if sanitize_throws body then (Threw, logged)
                 else
                   (fst (community_write env body airtable slack resend),
                    logged @ snd (community_write env body airtable slack resend))))"

section \<open>The newsletter handlers\<close>

text \<open>
  \<^verbatim>\<open>request.headers.get('x-forwarded-for')?.split(',')[0] ||
  request.headers.get('x-real-ip') || 'unknown'\<close>
\<close>

definition clientIp :: "request \<Rightarrow> string" where
  "clientIp req =
     (let forwarded = map_option (takeWhile (\<lambda>c. c \<noteq> CHR '','')) (headers req ''x-forwarded-for'');
          real_ip = headers req ''x-real-ip''
      in case forwarded of
           Some a \<Rightarrow> if a \<noteq> [] then a
                     else (case real_ip of Some b \<Rightarrow> if b \<noteq> [] then b else ''unknown''
                           | None \<Rightarrow> ''unknown'')
         | None \<Rightarrow> (case real_ip of Some b \<Rightarrow> if b \<noteq> [] then b else ''unknown''
                     | None \<Rightarrow> ''unknown''))"

text \<open>
  \<^verbatim>\<open>responseData?.error?.message?.toLowerCase() || ''\<close>. \<open>None\<close>: the message
  is neither a string nor null nor undefined, so \<^verbatim>\<open>toLowerCase\<close> is not a function
  and the TypeError lands in the handler's \<^verbatim>\<open>catch\<close>.
\<close>

definition errorMessage :: "json \<Rightarrow> string option" where
  "errorMessage responseData =
     (let message = opt_field (opt_field (Some responseData) ''error'') ''message''
      in if message = None \<or> message = Some JNull then Some []
         else map_option toLowerCase (as_string message))"

definition already_listed :: "string \<Rightarrow> bool" where
  "already_listed msg =
     (str_includes msg ''already subscribed'' \<or>
      str_includes msg ''already pending'' \<or>
      str_includes msg ''is already on the list'')"

text \<open>
  The \<^verbatim>\<open>try\<close> block of the handler in the second document of
  \<^verbatim>\<open>src/pages/api/newsletter/debug.ts\<close>: the call that creates the contact at
  EmailOctopus, and the reading of its answer. \<open>isProduction\<close> is
  \<^verbatim>\<open>import.meta.env.PROD\<close>.
\<close>

definition newsletter_subscribe :: "environment \<Rightarrow> json fetch_result \<Rightarrow> outcome \<times> effect list" where
  "newsletter_subscribe env upstream =
     (case upstream of
        FetchRejected \<Rightarrow>
          (failure 500 ''Internal server error'',
           [Fetch EmailOctopus, ConsoleError ''Error calling EmailOctopus API:''])
      | Fetched good st responseData \<Rightarrow>
          if good then (success_true, [Fetch EmailOctopus])
          else
            (case errorMessage responseData of
               None \<Rightarrow>
                 (failure 500 ''Internal server error'',
                  [Fetch EmailOctopus, ConsoleError ''Error calling EmailOctopus API:''])
             | Some msg \<Rightarrow>
                 if already_listed msg then (success_true, [Fetch EmailOctopus])
                 else
                   (json_response 500
                      ([(''success'', JBool False),
                        (''error'', JStr
                           (if isProduction env
                            then ''Failed to subscribe. Please try again later.''
                            else ''EmailOctopus API request failed. Check upstreamStatus and upstreamBody for details.''))] @
                       (if \<not> isProduction env
                        then [(''upstreamStatus'', JNum (int st)), (''upstreamBody'', responseData)]
                        else [])),
                    [Fetch EmailOctopus, ConsoleError ''EmailOctopus API error:''])))"

text \<open>
  The handler (e-mail only). It takes the rate-limit map and the clock and returns the
  map with its response.
\<close>

definition newsletter_POST ::
  "environment \<Rightarrow> request \<Rightarrow> int \<Rightarrow> rateLimitMap \<Rightarrow> json fetch_result \<Rightarrow>
   (outcome \<times> effect list) \<times> rateLimitMap" where
  "newsletter_POST env req now m upstream =
     (case parsed req of
        None \<Rightarrow> ((failure 400 ''Invalid JSON'', []), m)
      | Some body \<Rightarrow>
          if body = JNull then ((Threw, []), m)
          else
          (case honeypot body of
             None \<Rightarrow> ((Threw, []), m)
           | Some True \<Rightarrow> ((success_true, []), m)
           | Some False \<Rightarrow>
               (case as_string (get_field body ''email'') of
                  None \<Rightarrow> ((failure 400 ''Email is required'', []), m)
                | Some e \<Rightarrow>
                    if e = [] then ((failure 400 ''Email is required'', []), m)
                    else
                      let email = trim e in
                      if \<not> isValidEmail email
                      then ((failure 400 ''Invalid email format'', []), m)
                      else
                        let (allowed, m') = checkRateLimit now (clientIp req) m in
                        if \<not> allowed
                        then ((failure 429 ''Too many requests. Please try again later.'', []), m')
                        else if \<not> present (vars env ''EMAILOCTOPUS_API_KEY'') \<or>
                                \<not> present (vars env ''EMAILOCTOPUS_LIST_ID'')
                        then ((failure 500 ''Server configuration error'',
                               [ConsoleError ''Missing EmailOctopus environment variables'']), m')
                        else (newsletter_subscribe env upstream, m'))))"

text \<open>
  The handler of \<^verbatim>\<open>src/unnamed/part_000\<close>: the newsletter signup that also
  requires a first and a last name. It has a rate-limit map of its own, and answers every
  failure after the limiter with the same message.
\<close>

definition newsletter_named_subscribe :: "json fetch_result \<Rightarrow> outcome \<times> effect list" where
  "newsletter_named_subscribe upstream =
     (case upstream of
        FetchRejected \<Rightarrow> (failure 500 ''Server configuration error'', [Fetch EmailOctopus])
      | Fetched good st responseData \<Rightarrow>
          if good then (success_true, [Fetch EmailOctopus])
          else
            (case errorMessage responseData of
               None \<Rightarrow> (failure 500 ''Server configuration error'', [Fetch EmailOctopus])
             | Some msg \<Rightarrow>
                 if already_listed msg then (success_true, [Fetch EmailOctopus])
                 else (failure 500 ''Server configuration error'', [Fetch EmailOctopus])))"

definition newsletter_named_POST ::
  "environment \<Rightarrow> request \<Rightarrow> int \<Rightarrow> rateLimitMap \<Rightarrow> json fetch_result \<Rightarrow>
   (outcome \<times> effect list) \<times> rateLimitMap" where
  "newsletter_named_POST env req now m upstream =
     (case parsed req of
        None \<Rightarrow> ((failure 400 ''Invalid JSON'', []), m)
      | Some body \<Rightarrow>
          if body = JNull then ((Threw, []), m)
          else
          (case honeypot body of
             None \<Rightarrow> ((Threw, []), m)
           | Some True \<Rightarrow> ((success_true, []), m)
           | Some False \<Rightarrow>
               (case as_string (get_field body ''email'') of
                  None \<Rightarrow> ((failure 400 ''Email is required'', []), m)
                | Some e \<Rightarrow>
                    if e = [] then ((failure 400 ''Email is required'', []), m)
                    else
                      let email = trim e in
                      if \<not> isValidEmail email
                      then ((failure 400 ''Invalid email format'', []), m)
                      else if not_filled (get_field body ''firstName'')
                      then ((failure 400 ''First name is required'', []), m)
                      else if not_filled (get_field body ''lastName'')
                      then ((failure 400 ''Last name is required'', []), m)
                      else
                        let (allowed, m') = checkRateLimit now (clientIp req) m in
                        if \<not> allowed
                        then ((failure 429 ''Too many requests. Please try again later.'', []), m')
                        else if \<not> present (vars env ''EMAILOCTOPUS_API_KEY'') \<or>
                                \<not> present (vars env ''EMAILOCTOPUS_LIST_ID'')
                        then ((failure 500 ''Server configuration error'',
                               [ConsoleError ''Missing EmailOctopus environment variables'']), m')
                        else (newsletter_named_subscribe upstream, m'))))"


section \<open>The merch waitlist handler\<close>

definition slack_merch :: "environment \<Rightarrow> string fetch_result \<Rightarrow> effect list" where
  "slack_merch env slack =
     (if present (vars env ''SLACK_MERCH_WEBHOOK_URL'')
      then Fetch Slack #
        (case slack of
           FetchRejected \<Rightarrow> [ConsoleError ''Slack webhook exception:'']
         | Fetched good st txt \<Rightarrow>
             if \<not> good then [ConsoleError ''Slack webhook error:'']
             else [ConsoleLog ''Slack notification sent successfully''])
      else [])"

text \<open>
  \<^verbatim>\<open>body.interestedIn ? body.interestedIn.trim() : undefined\<close> stands outside the
  \<^verbatim>\<open>try\<close>: a truthy value that is not a string throws.
\<close>

definition interestedIn_throws :: "json \<Rightarrow> bool" where
  "interestedIn_throws body =
     (truthy (get_field body ''interestedIn'') \<and>
      as_string (get_field body ''interestedIn'') = None)"

text \<open>The \<^verbatim>\<open>try\<close> block: the write to Airtable, then the Slack notification.\<close>

definition merch_write ::
  "environment \<Rightarrow> string fetch_result \<Rightarrow> string fetch_result \<Rightarrow> outcome \<times> effect list" where
  "merch_write env airtable slack =
     (case airtable of
        FetchRejected \<Rightarrow> (failure 500 ''Server error'', [Fetch Airtable])
      | Fetched good st txt \<Rightarrow>
          if \<not> good
          then (failure 502 ''Server error'', [Fetch Airtable, ConsoleError ''Airtable API error:''])
          else (success_true, [Fetch Airtable] @ slack_merch env slack))"

definition merch_POST ::
  "environment \<Rightarrow> request \<Rightarrow> string fetch_result \<Rightarrow> string fetch_result \<Rightarrow>
   outcome \<times> effect list" where
  "merch_POST env req airtable slack =
     (case parsed req of
        None \<Rightarrow> (failure 400 ''Invalid JSON'', [])
      | Some body \<Rightarrow>
          if body = JNull then (Threw, [])
          else
          (case honeypot body of
             None \<Rightarrow> (Threw, [])
           | Some True \<Rightarrow> (success_true, [])
           | Some False \<Rightarrow>
               if not_filled (get_field body ''name'')
               then (failure 400 ''Name is required'', [])
               else
                 (case as_string (get_field body ''email'') of
                    None \<Rightarrow> (failure 400 ''Email is required'', [])
                  | Some e \<Rightarrow>
                      if e = [] then (failure 400 ''Email is required'', [])
                      else
                        let email = trim e in
                        if \<not> isValidEmail email
                        then (failure 400 ''Invalid email format'', [])
                        else if not_filled (get_field body ''sizePreference'')
                        then (failure 400 ''Size preference is required'', [])
                        else if interestedIn_throws body then (Threw, [])
                        else if \<not> present (vars env ''AIRTABLE_PAT'') \<or>
                                \<not> present (vars env ''AIRTABLE_BASE_ID'') \<or>
                                \<not> present (vars env ''AIRTABLE_MERCH_TABLE_ID'')
                        then (failure 500 ''Server error'', [])
                        else merch_write env airtable slack)))"

section \<open>Observations and path conditions\<close>

text \<open>The status of the response, when there is one.\<close>

fun status_of :: "outcome \<Rightarrow> nat option" where
  "status_of (Responded r) = Some (status r)"
| "status_of Threw = None"

text \<open>
  A request is past the honeypot of the newsletter and merch handlers when its body has
  parsed to something other than null and the honeypot test has come out false.
\<close>

definition past_honeypot :: "request \<Rightarrow> json \<Rightarrow> bool" where
  "past_honeypot req body = (parsed req = Some body \<and> body \<noteq> JNull \<and> honeypot body = Some False)"

text \<open>
  The e-mail test of the newsletter and merch handlers passes: the field is a string, not
  empty, and its trimmed value matches the pattern.
\<close>

definition email_accepted :: "json \<Rightarrow> bool" where
  "email_accepted body =
     (case as_string (get_field body ''email'') of
        None \<Rightarrow> False
      | Some e \<Rightarrow> e \<noteq> [] \<and> isValidEmail (trim e))"

text \<open>The requests that reach the rate limiter of the two newsletter handlers.\<close>

definition newsletter_accepts :: "request \<Rightarrow> bool" where
  "newsletter_accepts req =
     (case parsed req of
        None \<Rightarrow> False
      | Some body \<Rightarrow> past_honeypot req body \<and> email_accepted body)"

definition newsletter_named_accepts :: "request \<Rightarrow> bool" where
  "newsletter_named_accepts req =
     (case parsed req of
        None \<Rightarrow> False
      | Some body \<Rightarrow>
          past_honeypot req body \<and> email_accepted body \<and>
          \<not> not_filled (get_field body ''firstName'') \<and>
          \<not> not_filled (get_field body ''lastName''))"

definition newsletter_configured :: "environment \<Rightarrow> bool" where
  "newsletter_configured env =
     (present (vars env ''EMAILOCTOPUS_API_KEY'') \<and> present (vars env ''EMAILOCTOPUS_LIST_ID''))"

text \<open>The requests that reach the configuration check of the merch handler.\<close>

definition merch_validated :: "request \<Rightarrow> bool" where
  "merch_validated req =
     (case parsed req of
        None \<Rightarrow> False
      | Some body \<Rightarrow>
          past_honeypot req body \<and>
          \<not> not_filled (get_field body ''name'') \<and> email_accepted body \<and>
          \<not> not_filled (get_field body ''sizePreference'') \<and>
          \<not> interestedIn_throws body)"

definition merch_configured :: "environment \<Rightarrow> bool" where
  "merch_configured env =
     (present (vars env ''AIRTABLE_PAT'') \<and> present (vars env ''AIRTABLE_BASE_ID'') \<and>
      present (vars env ''AIRTABLE_MERCH_TABLE_ID''))"

text \<open>The requests that reach the Airtable write of the community handler.\<close>

definition community_validated :: "(string \<Rightarrow> string option) \<Rightarrow> environment \<Rightarrow> request \<Rightarrow> bool" where
  "community_validated URL_origin env req =
     (origin_check URL_origin req = OriginOk \<and> missingVars env = [] \<and>
      (case parsed req of
         None \<Rightarrow> False
       | Some body \<Rightarrow>
           body \<noteq> JNull \<and> \<not> not_filled (get_field body ''fullName'') \<and>
           \<not> community_email_bad (get_field body ''email'') \<and> \<not> sanitize_throws body))"

text \<open>
  A required field is missing: the property is absent, or it is a string that is empty
  after trimming.
\<close>

definition field_missing :: "json option \<Rightarrow> bool" where
  "field_missing v =
     (v = None \<or> (case as_string v of None \<Rightarrow> False | Some s \<Rightarrow> trim s = []))"

text \<open>
  The shape the specification asks of an e-mail address: a local part that is not empty,
  an at sign, and a domain that contains a dot.
\<close>

definition email_shape :: "string \<Rightarrow> bool" where
  "email_shape s =
     list_ex (\<lambda>i. s ! i = CHR ''@'' \<and> CHR ''.'' \<in> set (drop (Suc i) s)) [1..<length s]"

text \<open>The field is a string of that shape.\<close>

definition shaped_email :: "json option \<Rightarrow> bool" where
  "shaped_email v = (case as_string v of None \<Rightarrow> False | Some e \<Rightarrow> email_shape e)"

text \<open>The field is a string that contains an at sign.\<close>

definition has_at_sign :: "json option \<Rightarrow> bool" where
  "has_at_sign v = (case as_string v of None \<Rightarrow> False | Some e \<Rightarrow> CHR ''@'' \<in> set e)"

text \<open>
  The answer of EmailOctopus says that the address is on the list already.
\<close>

definition says_already_listed :: "json \<Rightarrow> bool" where
  "says_already_listed responseData =
     (case errorMessage responseData of None \<Rightarrow> False | Some msg \<Rightarrow> already_listed msg)"

text \<open>
  What a call of \<open>checkRateLimit\<close> that returns true has done to the record of its
  key: stored a fresh record with count 1, or incremented the count of the record
  it found.
\<close>

definition stored_or_incremented :: "int \<Rightarrow> rl_record option \<Rightarrow> rl_record option \<Rightarrow> bool" where
  "stored_or_incremented now before after =
     (after = Some \<lparr>count = 1, resetAt = now + RATE_LIMIT_WINDOW_MS\<rparr> \<or>
      (case before of None \<Rightarrow> False | Some r \<Rightarrow> after = Some (r\<lparr>count := count r + 1\<rparr>)))"

definition count_inv :: "rateLimitMap \<Rightarrow> bool" where
  "count_inv m = (\<forall>ip r. m ip = Some r \<longrightarrow> 1 \<le> count r \<and> count r \<le> RATE_LIMIT_REQUESTS)"

section \<open>Sample inputs\<close>

text \<open>An environment with every variable of the four handlers set, in production.\<close>

definition sample_env :: environment where
  "sample_env =
     \<lparr>vars = map_of
        [(''AIRTABLE_PAT'', ''pat''), (''AIRTABLE_BASE_ID'', ''app1''),
         (''AIRTABLE_TABLE_ID'', ''tbl1''), (''AIRTABLE_MERCH_TABLE_ID'', ''tbl2''),
         (''SLACK_WEBHOOK_URL'', ''https://hooks.slack.com/a''),
         (''SLACK_MERCH_WEBHOOK_URL'', ''https://hooks.slack.com/b''),
         (''RESEND_API_KEY'', ''re''), (''FROM_EMAIL'', ''hi@thetechbros.io''),
         (''EMAILOCTOPUS_API_KEY'', ''eo''), (''EMAILOCTOPUS_LIST_ID'', ''list1'')],
      isProduction = True\<rparr>"

text \<open>An environment with no variable set.\<close>

definition empty_env :: environment where
  "empty_env = \<lparr>vars = (\<lambda>k. None), isProduction = True\<rparr>"

definition sample_headers :: "string \<Rightarrow> string option" where
  "sample_headers = map_of [(''x-forwarded-for'', ''10.0.0.1, 172.16.0.1'')]"

definition request_with :: "json option \<Rightarrow> request" where
  "request_with b =
     \<lparr>headers = sample_headers, url_origin = ''https://thetechbros.io'', parsed = b\<rparr>"

text \<open>\<^verbatim>\<open>{"email": "a@b.com"}\<close>\<close>

definition sample_newsletter_request :: request where
  "sample_newsletter_request = request_with (Some (JObj [(''email'', JStr ''a@b.com'')]))"

text \<open>\<^verbatim>\<open>{"email": "a@b.com", "firstName": "Ada", "lastName": "Lovelace"}\<close>\<close>

definition sample_named_request :: request where
  "sample_named_request =
     request_with (Some (JObj [(''email'', JStr ''a@b.com''), (''firstName'', JStr ''Ada''),
                               (''lastName'', JStr ''Lovelace'')]))"

text \<open>\<^verbatim>\<open>{"fullName": "Ada Lovelace", "email": "a@b.com"}\<close>\<close>

definition sample_community_request :: request where
  "sample_community_request =
     request_with (Some (JObj [(''fullName'', JStr ''Ada Lovelace''), (''email'', JStr ''a@b.com'')]))"

text \<open>\<^verbatim>\<open>{"name": "Ada", "email": "a@b.com", "sizePreference": "M"}\<close>\<close>

definition sample_merch_request :: request where
  "sample_merch_request =
     request_with (Some (JObj [(''name'', JStr ''Ada''), (''email'', JStr ''a@b.com''),
                               (''sizePreference'', JStr ''M'')]))"

text \<open>
  A stand-in for \<^verbatim>\<open>new URL(origin).origin\<close>: an origin is its own serialisation,
  and the constructor throws on the opaque origin \<^verbatim>\<open>null\<close>.
\<close>

definition sample_URL_origin :: "string \<Rightarrow> string option" where
  "sample_URL_origin s = (if s = ''null'' then None else Some s)"

text \<open>
  An answer of EmailOctopus to a second signup with the same address: status 409 and
  \<^verbatim>\<open>{"error": {"code": "MEMBER_EXISTS_WITH_EMAIL_ADDRESS", "message": "This email
  address is already subscribed to this list."}}\<close>
\<close>

definition sample_conflict :: "json fetch_result" where
  "sample_conflict =
     Fetched False 409
       (JObj [(''error'',
               JObj [(''code'', JStr ''MEMBER_EXISTS_WITH_EMAIL_ADDRESS''),
                     (''message'', JStr ''This email address is already subscribed to this list.'')])])"

section \<open>Facts about the model\<close>

lemma fetches_append: "fetches (xs @ ys) = fetches xs @ fetches ys"
  by (induction xs rule: fetches.induct) simp_all

lemma as_string_Some: "as_string v = Some s \<longleftrightarrow> v = Some (JStr s)"
  by (cases v rule: as_string.cases) simp_all

lemma fetches_slack_community:
  "fetches (slack_community env s) = (if present (vars env ''SLACK_WEBHOOK_URL'') then [Slack] else [])"
  by (simp add: slack_community_def split: fetch_result.splits)

lemma fetches_resend_community:
  "set (fetches (resend_community env body r)) \<subseteq> {Resend}"
  by (simp add: resend_community_def split: fetch_result.splits)

lemma fetches_slack_merch:
  "fetches (slack_merch env s) = (if present (vars env ''SLACK_MERCH_WEBHOOK_URL'') then [Slack] else [])"
  by (simp add: slack_merch_def split: fetch_result.splits)

lemma community_not_validated:
  "\<not> community_validated U env req \<Longrightarrow> fetches (snd (community_POST U env req a s r)) = []"
  by (auto simp: community_POST_def community_validated_def Let_def
      split: origin_verdict.splits option.splits)

lemma community_validated_result:
  assumes "community_validated U env req"
  shows "\<exists>logged body. parsed req = Some body \<and> fetches logged = [] \<and>
     community_POST U env req a s r =
       (fst (community_write env body a s r), logged @ snd (community_write env body a s r))"
  using assms
  by (auto simp: community_POST_def community_validated_def Let_def split: option.splits)

lemma merch_not_fetch:
  "\<not> (merch_validated req \<and> merch_configured env) \<Longrightarrow> snd (merch_POST env req a s) = []"
  by (auto simp: merch_POST_def merch_validated_def merch_configured_def past_honeypot_def
        email_accepted_def Let_def
      split: option.splits bool.splits)

lemma merch_validated_result:
  assumes "merch_validated req"
  shows "merch_POST env req a s =
     (if \<not> merch_configured env then (failure 500 ''Server error'', [])
      else merch_write env a s)"
  using assms
  by (auto simp: merch_POST_def merch_validated_def merch_configured_def past_honeypot_def
        email_accepted_def Let_def
      split: option.splits bool.splits)

lemma newsletter_not_accepted:
  "\<not> newsletter_accepts req \<Longrightarrow>
     snd (fst (newsletter_POST env req now m up)) = [] \<and>
     snd (newsletter_POST env req now m up) = m \<and>
     status_of (fst (fst (newsletter_POST env req now m up))) \<in> {None, Some 200, Some 400}"
  by (auto simp: newsletter_POST_def newsletter_accepts_def past_honeypot_def email_accepted_def
        Let_def failure_def success_true_def json_response_def
      split: option.splits bool.splits)

lemma newsletter_accepted:
  "newsletter_accepts req \<Longrightarrow> newsletter_POST env req now m up =
     (if \<not> fst (checkRateLimit now (clientIp req) m)
      then (failure 429 ''Too many requests. Please try again later.'', [])
      else if \<not> newsletter_configured env
      then (failure 500 ''Server configuration error'',
            [ConsoleError ''Missing EmailOctopus environment variables''])
      else newsletter_subscribe env up, snd (checkRateLimit now (clientIp req) m))"
  by (auto simp: newsletter_POST_def newsletter_accepts_def newsletter_configured_def
        past_honeypot_def email_accepted_def Let_def
      split: option.splits bool.splits prod.splits)

lemma newsletter_named_not_accepted:
  "\<not> newsletter_named_accepts req \<Longrightarrow>
     snd (fst (newsletter_named_POST env req now m up)) = [] \<and>
     snd (newsletter_named_POST env req now m up) = m \<and>
     status_of (fst (fst (newsletter_named_POST env req now m up))) \<in> {None, Some 200, Some 400}"
  by (auto simp: newsletter_named_POST_def newsletter_named_accepts_def past_honeypot_def
        email_accepted_def Let_def failure_def success_true_def json_response_def
      split: option.splits bool.splits)

lemma newsletter_named_accepted:
  "newsletter_named_accepts req \<Longrightarrow> newsletter_named_POST env req now m up =
     (if \<not> fst (checkRateLimit now (clientIp req) m)
      then (failure 429 ''Too many requests. Please try again later.'', [])
      else if \<not> newsletter_configured env
      then (failure 500 ''Server configuration error'',
            [ConsoleError ''Missing EmailOctopus environment variables''])
      else newsletter_named_subscribe up, snd (checkRateLimit now (clientIp req) m))"
  by (auto simp: newsletter_named_POST_def newsletter_named_accepts_def newsletter_configured_def
        past_honeypot_def email_accepted_def Let_def
      split: option.splits bool.splits prod.splits)

subsection \<open>The rate limiter\<close>

lemma count_inv_step:
  assumes "count_inv m"
  shows "count_inv (snd (checkRateLimit now ip m))"
  unfolding count_inv_def
proof (intro allI impI)
  fix k r
  assume after: "snd (checkRateLimit now ip m) k = Some r"
  show "1 \<le> count r \<and> count r \<le> RATE_LIMIT_REQUESTS"
  proof (cases "k = ip")
    case False
    with after have "m k = Some r"
      by (auto simp: checkRateLimit_def split: option.splits if_splits)
    with assms show ?thesis by (simp add: count_inv_def)
  next
    case True
    show ?thesis
    proof (cases "m ip")
      case None
      with after True show ?thesis
        by (auto simp: checkRateLimit_def RATE_LIMIT_REQUESTS_def)
    next
      case (Some old)
      with assms have "1 \<le> count old" "count old \<le> RATE_LIMIT_REQUESTS"
        by (simp_all add: count_inv_def)
      with after True Some show ?thesis
        by (auto simp: checkRateLimit_def RATE_LIMIT_REQUESTS_def split: if_splits)
    qed
  qed
qed

lemma count_inv_run: "count_inv m \<Longrightarrow> count_inv (run_calls cs m)"
  by (induction cs arbitrary: m) (auto simp: count_inv_step)

lemma count_inv_empty: "count_inv Map.empty"
  by (simp add: count_inv_def)

lemma incr_neq: "r \<noteq> r\<lparr>count := count r + 1\<rparr>"
  by (cases r) simp

lemma verdict_iff:
  "fst (checkRateLimit now ip m) =
     stored_or_incremented now (m ip) (snd (checkRateLimit now ip m) ip)"
  using incr_neq
  by (auto simp: checkRateLimit_def stored_or_incremented_def RATE_LIMIT_REQUESTS_def
      split: option.splits)

lemma refused_unchanged: "\<not> fst (checkRateLimit now ip m) \<Longrightarrow> snd (checkRateLimit now ip m) = m"
  by (auto simp: checkRateLimit_def split: option.splits if_splits)



subsection \<open>Unfolding on concrete inputs\<close>

lemmas sample_defs =
  sample_env_def empty_env_def sample_headers_def request_with_def sample_newsletter_request_def
  sample_named_request_def sample_community_request_def sample_merch_request_def
  sample_URL_origin_def sample_conflict_def

lemmas string_defs =
  isValidEmail_def not_space_at_def is_space_def trim_def honeypot_def not_filled_def

lemmas handler_defs =
  newsletter_POST_def newsletter_named_POST_def merch_POST_def community_POST_def
  newsletter_subscribe_def newsletter_named_subscribe_def merch_write_def community_write_def
  slack_community_def resend_community_def slack_merch_def origin_check_def missingVars_def
  community_email_bad_def sanitize_throws_def String_if_truthy_throws_def
  interestedIn_throws_def errorMessage_def already_listed_def
  toLowerCase_def lower_char_def clientIp_def checkRateLimit_def RATE_LIMIT_REQUESTS_def
  RATE_LIMIT_WINDOW_MS_def present_def Let_def

subsection \<open>Statuses\<close>

lemma status_of_failure [simp]: "status_of (failure st msg) = Some st"
  by (simp add: failure_def json_response_def)

lemma status_of_error_only [simp]: "status_of (error_only st msg) = Some st"
  by (simp add: error_only_def json_response_def)

lemma status_of_success_true [simp]: "status_of success_true = Some 200"
  by (simp add: success_true_def json_response_def)

lemma status_of_json_response [simp]: "status_of (json_response st ms) = Some st"
  by (simp add: json_response_def)







subsection \<open>Which requests reach the upstream call\<close>

lemma newsletter_fetch_result:
  assumes "Fetch EmailOctopus \<in> set (snd (fst (newsletter_POST env req now m up)))"
  shows "fst (newsletter_POST env req now m up) = newsletter_subscribe env up"
proof (cases "newsletter_accepts req")
  case False
  from newsletter_not_accepted[OF this, of env now m up] assms show ?thesis by simp
next
  case True
  with assms show ?thesis
    by (simp add: newsletter_accepted split: if_splits)
qed

lemma newsletter_named_fetch_result:
  assumes "Fetch EmailOctopus \<in> set (snd (fst (newsletter_named_POST env req now m up)))"
  shows "fst (newsletter_named_POST env req now m up) = newsletter_named_subscribe up"
proof (cases "newsletter_named_accepts req")
  case False
  from newsletter_named_not_accepted[OF this, of env now m up] assms show ?thesis by simp
next
  case True
  with assms show ?thesis
    by (simp add: newsletter_named_accepted split: if_splits)
qed

lemma merch_fetch_result:
  assumes "Fetch Airtable \<in> set (snd (merch_POST env req a s))"
  shows "merch_POST env req a s = merch_write env a s"
proof (cases "merch_validated req \<and> merch_configured env")
  case False
  from merch_not_fetch[OF this, of a s] assms show ?thesis by simp
next
  case True
  then show ?thesis by (simp add: merch_validated_result)
qed

lemma fetches_Nil_no_Fetch: "fetches tr = [] \<Longrightarrow> Fetch t \<notin> set tr"
  by (induction tr rule: fetches.induct) simp_all

lemma community_fetch_result:
  assumes "Fetch Airtable \<in> set (snd (community_POST U env req a s r))"
  shows "\<exists>logged body. parsed req = Some body \<and> fetches logged = [] \<and>
     community_POST U env req a s r =
       (fst (community_write env body a s r), logged @ snd (community_write env body a s r))"
proof (cases "community_validated U env req")
  case False
  from community_not_validated[OF this, of a s r] assms show ?thesis
    by (auto dest: fetches_Nil_no_Fetch)
next
  case True
  then show ?thesis by (rule community_validated_result)
qed

text \<open>
  A body that passes the validation of the community handler and whose optional field
  cannot be converted to text: the TypeError escapes before any outbound call.
\<close>

lemma community_sanitising_throws:
  "community_POST sample_URL_origin sample_env
     (request_with (Some (JObj [(''fullName'', JStr ''Ada''), (''email'', JStr ''a@b.com''),
                                (''linkedinUrl'', JObj [(''toString'', JNum 1)])])))
     (Fetched True 200 ''created'') FetchRejected FetchRejected =
   (Threw, [ConsoleLog ''Environment variables present:''])"
  by (simp add: handler_defs sample_defs string_defs)

subsection \<open>Substrings and lower case\<close>

lemma str_includes_decompose: "str_includes hay needle \<Longrightarrow> \<exists>a b. hay = a @ needle @ b"
proof (induction hay)
  case Nil
  then show ?case by simp
next
  case (Cons c cs)
  show ?case
  proof (cases "take (length needle) (c # cs) = needle")
    case True
    then have "c # cs = [] @ needle @ drop (length needle) (c # cs)"
      by (metis append_Nil append_take_drop_id)
    then show ?thesis by blast
  next
    case False
    with Cons.prems have "str_includes cs needle" by simp
    then obtain a b where "cs = a @ needle @ b" using Cons.IH by blast
    then have "c # cs = (c # a) @ needle @ b" by simp
    then show ?thesis by blast
  qed
qed

lemma str_includes_compose: "str_includes (a @ needle @ b) needle"
proof (induction a)
  case Nil
  show ?case
  proof (cases "needle @ b")
    case Nil
    then show ?thesis by simp
  next
    case (Cons x xs)
    have "take (length needle) (needle @ b) = needle" by simp
    then have "take (length needle) (x # xs) = needle" unfolding Cons .
    then show ?thesis using Cons by simp
  qed
next
  case (Cons x a)
  then show ?case by simp
qed

lemma str_includes_map:
  assumes "str_includes hay needle" and "map f needle = needle"
  shows "str_includes (map f hay) needle"
proof -
  from assms(1) obtain a b where "hay = a @ needle @ b"
    using str_includes_decompose by blast
  then have "map f hay = map f a @ needle @ map f b"
    using assms(2) by simp
  then show ?thesis by (simp add: str_includes_compose)
qed

lemma lower_fixed:
  "toLowerCase ''already subscribed'' = ''already subscribed''"
  "toLowerCase ''already pending'' = ''already pending''"
  "toLowerCase ''is already on the list'' = ''is already on the list''"
  by (simp_all add: toLowerCase_def lower_char_def)

lemma already_listed_lower:
  assumes "str_includes msg ''already subscribed'' \<or> str_includes msg ''already pending'' \<or>
           str_includes msg ''is already on the list''"
  shows "already_listed (toLowerCase msg)"
  using assms lower_fixed
  unfolding already_listed_def toLowerCase_def
  by (auto intro: str_includes_map)

subsection \<open>Requests stopped before the configuration check\<close>

lemma merch_not_validated_status:
  "\<not> merch_validated req \<Longrightarrow>
     status_of (fst (merch_POST env req a s)) \<in> {None, Some 200, Some 400}"
  by (auto simp: merch_POST_def merch_validated_def past_honeypot_def email_accepted_def Let_def
      split: option.splits bool.splits)

lemma trim_Nil [simp]: "trim [] = []"
  by (simp add: trim_def)

lemma honeypot_filled:
  assumes "get_field body ''company'' = Some (JStr s)" and "trim s \<noteq> []"
  shows "body \<noteq> JNull" and "honeypot body = Some True"
proof -
  from assms(1) show "body \<noteq> JNull" by auto
  from assms(2) have "s \<noteq> []" by auto
  with assms show "honeypot body = Some True"
    by (simp add: honeypot_def)
qed

subsection \<open>The e-mail pattern and the shape of the specification\<close>

lemma email_shape_iff:
  "email_shape s \<longleftrightarrow> (\<exists>l d. s = l @ CHR ''@'' # d \<and> l \<noteq> [] \<and> CHR ''.'' \<in> set d)"
proof
  assume "email_shape s"
  then obtain i where i: "1 \<le> i" "i < length s" "s ! i = CHR ''@''"
    "CHR ''.'' \<in> set (drop (Suc i) s)"
    by (auto simp: email_shape_def list_ex_iff)
  then have "s = take i s @ CHR ''@'' # drop (Suc i) s"
    by (metis id_take_nth_drop)
  moreover from i have "take i s \<noteq> []" by auto
  ultimately show "\<exists>l d. s = l @ CHR ''@'' # d \<and> l \<noteq> [] \<and> CHR ''.'' \<in> set d"
    using i(4) by blast
next
  assume "\<exists>l d. s = l @ CHR ''@'' # d \<and> l \<noteq> [] \<and> CHR ''.'' \<in> set d"
  then obtain l d where s: "s = l @ CHR ''@'' # d" "l \<noteq> []" "CHR ''.'' \<in> set d"
    by blast
  then have "1 \<le> length l" "length l < length s" "s ! length l = CHR ''@''"
    "drop (Suc (length l)) s = d"
    by (simp_all add: Suc_le_eq)
  with s(3) show "email_shape s"
    unfolding email_shape_def list_ex_iff by (intro bexI[of _ "length l"]) simp_all
qed

lemma matches_Many1D:
  "matches (Many1 p # r) s \<Longrightarrow> \<exists>a b. s = a @ b \<and> a \<noteq> [] \<and> matches r b"
proof (induction s)
  case Nil
  then show ?case by simp
next
  case (Cons c s)
  then have "matches r s \<or> matches (Many1 p # r) s" by simp
  then show ?case
  proof
    assume "matches r s"
    then have "c # s = [c] @ s \<and> [c] \<noteq> [] \<and> matches r s" by simp
    then show ?thesis by blast
  next
    assume "matches (Many1 p # r) s"
    then obtain a b where "s = a @ b" "a \<noteq> []" "matches r b"
      using Cons.IH by blast
    then have "c # s = (c # a) @ b \<and> c # a \<noteq> [] \<and> matches r b" by simp
    then show ?thesis by blast
  qed
qed

lemma matches_OneD: "matches (One p # r) s \<Longrightarrow> \<exists>c b. s = c # b \<and> p c \<and> matches r b"
  by (cases s) simp_all

lemma isValidEmail_shape:
  assumes "isValidEmail s"
  shows "email_shape s"
proof -
  let ?tail = "[Many1 not_space_at, One (\<lambda>c. c = CHR ''.''), Many1 not_space_at]"
  from assms obtain l r1 where 1: "s = l @ r1" "l \<noteq> []"
    "matches (One (\<lambda>c. c = CHR ''@'') # ?tail) r1"
    unfolding isValidEmail_def using matches_Many1D by blast
  from matches_OneD[OF 1(3)] obtain d where 2: "r1 = CHR ''@'' # d" "matches ?tail d"
    by auto
  from matches_Many1D[OF 2(2)] obtain a r2 where 3: "d = a @ r2"
    "matches [One (\<lambda>c. c = CHR ''.''), Many1 not_space_at] r2"
    by blast
  from matches_OneD[OF 3(2)] obtain r3 where "r2 = CHR ''.'' # r3"
    by auto
  with 3 have "CHR ''.'' \<in> set d" by simp
  with 1 2 show ?thesis
    unfolding email_shape_iff by blast
qed

lemma email_shape_embedded: "email_shape t \<Longrightarrow> email_shape (a @ t @ b)"
proof -
  assume "email_shape t"
  then obtain l d where "t = l @ CHR ''@'' # d" "l \<noteq> []" "CHR ''.'' \<in> set d"
    unfolding email_shape_iff by blast
  then have "a @ t @ b = (a @ l) @ CHR ''@'' # (d @ b) \<and> a @ l \<noteq> [] \<and> CHR ''.'' \<in> set (d @ b)"
    by simp
  then show ?thesis unfolding email_shape_iff by blast
qed

lemma trim_embedded: "\<exists>a b. s = a @ trim s @ b"
proof -
  let ?u = "dropWhile is_space s"
  have "s = takeWhile is_space s @ ?u" by simp
  moreover have "?u = rev (rev ?u)" by simp
  moreover have "rev ?u = takeWhile is_space (rev ?u) @ dropWhile is_space (rev ?u)" by simp
  ultimately have "s = takeWhile is_space s @ trim s @ rev (takeWhile is_space (rev ?u))"
    unfolding trim_def by (metis rev_append)
  then show ?thesis by blast
qed

lemma email_shape_trim: "email_shape (trim s) \<Longrightarrow> email_shape s"
  using trim_embedded[of s] email_shape_embedded by metis

lemma email_accepted_shaped: "email_accepted body \<Longrightarrow> shaped_email (get_field body ''email'')"
  by (auto simp: email_accepted_def shaped_email_def split: option.splits
      intro: email_shape_trim isValidEmail_shape)

lemma str_includes_at: "str_includes s ''@'' \<longleftrightarrow> CHR ''@'' \<in> set s"
  by (induction s) auto

lemma community_email_bad_iff: "community_email_bad v \<longleftrightarrow> \<not> has_at_sign v"
  by (auto simp: community_email_bad_def has_at_sign_def str_includes_at split: option.splits)

lemma email_rejected_newsletter:
  assumes "past_honeypot req body" and "\<not> email_accepted body"
  shows "status_of (fst (fst (newsletter_POST env req now m up))) = Some 400"
    and "snd (fst (newsletter_POST env req now m up)) = []"
    and "snd (newsletter_POST env req now m up) = m"
  using assms
  by (auto simp: newsletter_POST_def past_honeypot_def email_accepted_def Let_def
      split: option.splits)

lemma email_rejected_newsletter_named:
  assumes "past_honeypot req body" and "\<not> email_accepted body"
  shows "status_of (fst (fst (newsletter_named_POST env req now m up))) = Some 400"
    and "snd (fst (newsletter_named_POST env req now m up)) = []"
    and "snd (newsletter_named_POST env req now m up) = m"
  using assms
  by (auto simp: newsletter_named_POST_def past_honeypot_def email_accepted_def Let_def
      split: option.splits)

lemma email_rejected_merch:
  assumes "past_honeypot req body" and "\<not> email_accepted body"
  shows "status_of (fst (merch_POST env req a s)) = Some 400"
    and "snd (merch_POST env req a s) = []"
  using assms
  by (auto simp: merch_POST_def past_honeypot_def email_accepted_def Let_def
      split: option.splits)

subsection \<open>Missing fields\<close>

lemma field_missing_not_filled: "field_missing v \<Longrightarrow> not_filled v"
  by (auto simp: field_missing_def not_filled_def split: option.splits)

lemma isValidEmail_Nil [simp]: "\<not> isValidEmail []"
  by (simp add: isValidEmail_def)

lemma newsletter_email_missing:
  assumes "past_honeypot req body" and "field_missing (get_field body ''email'')"
  shows "fst (newsletter_POST env req now m up) =
     (failure 400 (if get_field body ''email'' = None \<or> get_field body ''email'' = Some (JStr [])
                   then ''Email is required'' else ''Invalid email format''), [])"
  using assms
  by (auto simp: newsletter_POST_def past_honeypot_def field_missing_def as_string_Some Let_def
      split: option.splits)

lemma newsletter_named_email_missing:
  assumes "past_honeypot req body" and "field_missing (get_field body ''email'')"
  shows "fst (newsletter_named_POST env req now m up) =
     (failure 400 (if get_field body ''email'' = None \<or> get_field body ''email'' = Some (JStr [])
                   then ''Email is required'' else ''Invalid email format''), [])"
  using assms
  by (auto simp: newsletter_named_POST_def past_honeypot_def field_missing_def as_string_Some
        Let_def
      split: option.splits)

lemma newsletter_named_firstName_missing:
  assumes "past_honeypot req body" and "email_accepted body"
    and "not_filled (get_field body ''firstName'')"
  shows "fst (newsletter_named_POST env req now m up) =
     (failure 400 ''First name is required'', [])"
  using assms
  by (auto simp: newsletter_named_POST_def past_honeypot_def email_accepted_def Let_def
      split: option.splits)

lemma newsletter_named_lastName_missing:
  assumes "past_honeypot req body" and "email_accepted body"
    and "\<not> not_filled (get_field body ''firstName'')"
    and "not_filled (get_field body ''lastName'')"
  shows "fst (newsletter_named_POST env req now m up) =
     (failure 400 ''Last name is required'', [])"
  using assms
  by (auto simp: newsletter_named_POST_def past_honeypot_def email_accepted_def Let_def
      split: option.splits)

lemma merch_name_missing:
  assumes "past_honeypot req body" and "not_filled (get_field body ''name'')"
  shows "merch_POST env req a s = (failure 400 ''Name is required'', [])"
  using assms by (simp add: merch_POST_def past_honeypot_def)

lemma merch_email_missing:
  assumes "past_honeypot req body" and "\<not> not_filled (get_field body ''name'')"
    and "field_missing (get_field body ''email'')"
  shows "merch_POST env req a s =
     (failure 400 (if get_field body ''email'' = None \<or> get_field body ''email'' = Some (JStr [])
                   then ''Email is required'' else ''Invalid email format''), [])"
  using assms
  by (auto simp: merch_POST_def past_honeypot_def field_missing_def as_string_Some Let_def
      split: option.splits)

lemma merch_size_missing:
  assumes "past_honeypot req body" and "\<not> not_filled (get_field body ''name'')"
    and "email_accepted body" and "not_filled (get_field body ''sizePreference'')"
  shows "merch_POST env req a s = (failure 400 ''Size preference is required'', [])"
  using assms
  by (auto simp: merch_POST_def past_honeypot_def email_accepted_def Let_def
      split: option.splits)

lemma trim_Nil_all_space:
  assumes "trim e = []"
  shows "\<forall>c\<in>set e. is_space c"
proof -
  from assms have "\<forall>x\<in>set (dropWhile is_space e). is_space x"
    by (simp add: trim_def dropWhile_eq_Nil_conv)
  moreover have "dropWhile is_space e \<noteq> [] \<Longrightarrow> \<not> is_space (hd (dropWhile is_space e))"
    by (rule hd_dropWhile)
  ultimately have "dropWhile is_space e = []"
    by (metis hd_in_set)
  then show ?thesis by (simp add: dropWhile_eq_Nil_conv)
qed

lemma field_missing_no_at_sign: "field_missing v \<Longrightarrow> \<not> has_at_sign v"
proof
  assume m: "field_missing v" and "has_at_sign v"
  then obtain e where e: "as_string v = Some e" "CHR ''@'' \<in> set e"
    by (auto simp: has_at_sign_def split: option.splits)
  with m have "trim e = []" by (auto simp: field_missing_def)
  with e(2) have "is_space CHR ''@''" using trim_Nil_all_space by blast
  then show False by (simp add: is_space_def)
qed

section \<open>The claims\<close>

subsection \<open>Claim C1\<close>

text \<open>
  C1, as stated, fails at the newsletter handler: with the sample request, a configured
  environment and a non-success answer of EmailOctopus (status 500, body \<^verbatim>\<open>null\<close>),
  the call is made and the response has status 500, not 502.
\<close>

theorem newsletter_upstream_failure_is_500:
  "fetches (snd (fst (newsletter_POST sample_env sample_newsletter_request 0 Map.empty
                        (Fetched False 500 JNull)))) = [EmailOctopus] \<and>
   fst (fst (newsletter_POST sample_env sample_newsletter_request 0 Map.empty
               (Fetched False 500 JNull))) =
     failure 500 ''Failed to subscribe. Please try again later.'' \<and>
   status_of (fst (fst (newsletter_POST sample_env sample_newsletter_request 0 Map.empty
                          (Fetched False 500 JNull)))) = Some 500"
  by (simp add: handler_defs sample_defs string_defs failure_def json_response_def)

text \<open>
  C1, amended. At the community and merch handlers, when the write to Airtable is made
  and answers with a non-success response, the response has status 502 and the write is
  the only outbound call: no Slack or Resend notification is attempted. At the two
  newsletter handlers, when the call that creates the contact is made and answers with a
  non-success response, the response has status 500, or 200 when the answer says that the
  address is on the list already; that call is the only outbound call.
\<close>

theorem upstream_failure_outcome:
  "(Fetch Airtable \<in> set (snd (community_POST U env req (Fetched False st txt) slack resend)) \<longrightarrow>
      fst (community_POST U env req (Fetched False st txt) slack resend) =
        error_only 502 ''Failed to submit application'' \<and>
      fetches (snd (community_POST U env req (Fetched False st txt) slack resend)) = [Airtable]) \<and>
   (Fetch Airtable \<in> set (snd (merch_POST env req (Fetched False st txt) slack)) \<longrightarrow>
      fst (merch_POST env req (Fetched False st txt) slack) = failure 502 ''Server error'' \<and>
      fetches (snd (merch_POST env req (Fetched False st txt) slack)) = [Airtable]) \<and>
   (Fetch EmailOctopus \<in> set (snd (fst (newsletter_POST env req now m (Fetched False st data)))) \<longrightarrow>
      status_of (fst (fst (newsletter_POST env req now m (Fetched False st data)))) =
        Some (if says_already_listed data then 200 else 500) \<and>
      fetches (snd (fst (newsletter_POST env req now m (Fetched False st data)))) = [EmailOctopus]) \<and>
   (Fetch EmailOctopus \<in> set (snd (fst (newsletter_named_POST env req now m (Fetched False st data)))) \<longrightarrow>
      status_of (fst (fst (newsletter_named_POST env req now m (Fetched False st data)))) =
        Some (if says_already_listed data then 200 else 500) \<and>
      fetches (snd (fst (newsletter_named_POST env req now m (Fetched False st data)))) =
        [EmailOctopus])"
proof (intro conjI impI)
  assume a: "Fetch Airtable \<in> set (snd (community_POST U env req (Fetched False st txt) slack resend))"
  from community_fetch_result[OF a]
  show "fst (community_POST U env req (Fetched False st txt) slack resend) =
        error_only 502 ''Failed to submit application''"
    by (auto simp: community_write_def)
  from community_fetch_result[OF a]
  show "fetches (snd (community_POST U env req (Fetched False st txt) slack resend)) = [Airtable]"
    by (auto simp: community_write_def fetches_append)
next
  assume a: "Fetch Airtable \<in> set (snd (merch_POST env req (Fetched False st txt) slack))"
  from merch_fetch_result[OF a]
  show "fst (merch_POST env req (Fetched False st txt) slack) = failure 502 ''Server error''"
    by (simp add: merch_write_def)
  from merch_fetch_result[OF a]
  show "fetches (snd (merch_POST env req (Fetched False st txt) slack)) = [Airtable]"
    by (simp add: merch_write_def)
next
  assume a: "Fetch EmailOctopus \<in> set (snd (fst (newsletter_POST env req now m (Fetched False st data))))"
  from newsletter_fetch_result[OF a]
  show "status_of (fst (fst (newsletter_POST env req now m (Fetched False st data)))) =
        Some (if says_already_listed data then 200 else 500)"
    by (simp add: newsletter_subscribe_def says_already_listed_def split: option.splits)
  from newsletter_fetch_result[OF a]
  show "fetches (snd (fst (newsletter_POST env req now m (Fetched False st data)))) = [EmailOctopus]"
    by (simp add: newsletter_subscribe_def split: option.splits)
next
  assume a: "Fetch EmailOctopus \<in> set (snd (fst (newsletter_named_POST env req now m (Fetched False st data))))"
  from newsletter_named_fetch_result[OF a]
  show "status_of (fst (fst (newsletter_named_POST env req now m (Fetched False st data)))) =
        Some (if says_already_listed data then 200 else 500)"
    by (simp add: newsletter_named_subscribe_def says_already_listed_def split: option.splits)
  from newsletter_named_fetch_result[OF a]
  show "fetches (snd (fst (newsletter_named_POST env req now m (Fetched False st data)))) =
        [EmailOctopus]"
    by (simp add: newsletter_named_subscribe_def split: option.splits)
qed

theorem upstream_failure_outcome_witness:
  "fst (community_POST sample_URL_origin sample_env sample_community_request
          (Fetched False 422 ''invalid'') FetchRejected FetchRejected) =
     error_only 502 ''Failed to submit application'' \<and>
   fetches (snd (community_POST sample_URL_origin sample_env sample_community_request
                   (Fetched False 422 ''invalid'') FetchRejected FetchRejected)) = [Airtable] \<and>
   fst (merch_POST sample_env sample_merch_request (Fetched False 422 ''invalid'') FetchRejected) =
     failure 502 ''Server error'' \<and>
   fetches (snd (merch_POST sample_env sample_merch_request (Fetched False 422 ''invalid'')
                   FetchRejected)) = [Airtable] \<and>
   status_of (fst (fst (newsletter_POST sample_env sample_newsletter_request 0 Map.empty
                          (Fetched False 500 JNull)))) = Some 500 \<and>
   status_of (fst (fst (newsletter_named_POST sample_env sample_named_request 0 Map.empty
                          (Fetched False 500 JNull)))) = Some 500"
proof -
  have c: "Fetch Airtable \<in> set (snd (community_POST sample_URL_origin sample_env
        sample_community_request (Fetched False 422 ''invalid'') FetchRejected FetchRejected))"
    by (simp add: handler_defs sample_defs string_defs)
  have d: "Fetch Airtable \<in> set (snd (merch_POST sample_env sample_merch_request
        (Fetched False 422 ''invalid'') FetchRejected))"
    by (simp add: handler_defs sample_defs string_defs)
  have e: "Fetch EmailOctopus \<in> set (snd (fst (newsletter_POST sample_env
        sample_newsletter_request 0 Map.empty (Fetched False 500 JNull))))"
    by (simp add: handler_defs sample_defs string_defs)
  have f: "Fetch EmailOctopus \<in> set (snd (fst (newsletter_named_POST sample_env
        sample_named_request 0 Map.empty (Fetched False 500 JNull))))"
    by (simp add: handler_defs sample_defs string_defs)
  have g: "\<not> says_already_listed JNull"
    by (simp add: says_already_listed_def errorMessage_def already_listed_def)
  note t = upstream_failure_outcome[where env = sample_env]
  from t[where U = sample_URL_origin and req = sample_community_request and st = 422
        and ?txt = "''invalid''" and slack = FetchRejected and resend = FetchRejected] c
  have 1: "fst (community_POST sample_URL_origin sample_env sample_community_request
          (Fetched False 422 ''invalid'') FetchRejected FetchRejected) =
     error_only 502 ''Failed to submit application'' \<and>
   fetches (snd (community_POST sample_URL_origin sample_env sample_community_request
                   (Fetched False 422 ''invalid'') FetchRejected FetchRejected)) = [Airtable]"
    by blast
  from t[where req = sample_merch_request and st = 422 and ?txt = "''invalid''"
        and slack = FetchRejected] d
  have 2: "fst (merch_POST sample_env sample_merch_request (Fetched False 422 ''invalid'')
          FetchRejected) = failure 502 ''Server error'' \<and>
   fetches (snd (merch_POST sample_env sample_merch_request (Fetched False 422 ''invalid'')
                   FetchRejected)) = [Airtable]"
    by blast
  from t[where req = sample_newsletter_request and now = 0 and m = Map.empty and st = 500
        and data = JNull] e g
  have 3: "status_of (fst (fst (newsletter_POST sample_env sample_newsletter_request 0 Map.empty
                          (Fetched False 500 JNull)))) = Some 500"
    by simp
  from t[where req = sample_named_request and now = 0 and m = Map.empty and st = 500
        and data = JNull] f g
  have 4: "status_of (fst (fst (newsletter_named_POST sample_env sample_named_request 0 Map.empty
                          (Fetched False 500 JNull)))) = Some 500"
    by simp
  from 1 2 3 4 show ?thesis by blast
qed

subsection \<open>Claim C2\<close>

text \<open>
  C2, as stated, fails for a honeypot value that is not empty but blank: with
  \<^verbatim>\<open>{"email": "a@b.com", "company": " "}\<close> the newsletter handler goes on to
  create the contact, and with \<^verbatim>\<open>{"company": " "}\<close> the merch handler goes on
  to validate and answers 400.
\<close>

theorem blank_honeypot_not_short_circuited:
  "fetches (snd (fst (newsletter_POST sample_env
      (request_with (Some (JObj [(''email'', JStr ''a@b.com''), (''company'', JStr '' '')])))
      0 Map.empty (Fetched True 200 JNull)))) = [EmailOctopus] \<and>
   fst (merch_POST sample_env (request_with (Some (JObj [(''company'', JStr '' '')])))
          FetchRejected FetchRejected) = failure 400 ''Name is required''"
  by (simp add: handler_defs sample_defs string_defs as_string_Some)

text \<open>
  C2, amended. At the newsletter handlers and the merch handler, a request whose
  \<^verbatim>\<open>company\<close> field is a string that is not empty after trimming gets the success
  response (200, \<^verbatim>\<open>{success: true}\<close>); no outbound call is made, nothing is logged
  and the rate-limit map is left as it was.
\<close>

theorem honeypot_short_circuit:
  "(parsed req = Some body \<and> get_field body ''company'' = Some (JStr s) \<and> trim s \<noteq> [] \<longrightarrow>
      newsletter_POST env req now m up = ((success_true, []), m)) \<and>
   (parsed req = Some body \<and> get_field body ''company'' = Some (JStr s) \<and> trim s \<noteq> [] \<longrightarrow>
      newsletter_named_POST env req now m up = ((success_true, []), m)) \<and>
   (parsed req = Some body \<and> get_field body ''company'' = Some (JStr s) \<and> trim s \<noteq> [] \<longrightarrow>
      merch_POST env req airtable slack = (success_true, []))"
proof (intro conjI impI)
  assume h: "parsed req = Some body \<and> get_field body ''company'' = Some (JStr s) \<and> trim s \<noteq> []"
  then have "body \<noteq> JNull" "honeypot body = Some True"
    using honeypot_filled[of body s] by simp_all
  with h show "newsletter_POST env req now m up = ((success_true, []), m)"
    by (simp add: newsletter_POST_def)
next
  assume h: "parsed req = Some body \<and> get_field body ''company'' = Some (JStr s) \<and> trim s \<noteq> []"
  then have "body \<noteq> JNull" "honeypot body = Some True"
    using honeypot_filled[of body s] by simp_all
  with h show "newsletter_named_POST env req now m up = ((success_true, []), m)"
    by (simp add: newsletter_named_POST_def)
next
  assume h: "parsed req = Some body \<and> get_field body ''company'' = Some (JStr s) \<and> trim s \<noteq> []"
  then have "body \<noteq> JNull" "honeypot body = Some True"
    using honeypot_filled[of body s] by simp_all
  with h show "merch_POST env req airtable slack = (success_true, [])"
    by (simp add: merch_POST_def)
qed

theorem honeypot_short_circuit_witness:
  "newsletter_POST sample_env
      (request_with (Some (JObj [(''email'', JStr ''a@b.com''), (''company'', JStr ''Acme'')])))
      0 Map.empty (Fetched True 200 JNull) = ((success_true, []), Map.empty) \<and>
   newsletter_named_POST sample_env
      (request_with (Some (JObj [(''email'', JStr ''a@b.com''), (''company'', JStr ''Acme'')])))
      0 Map.empty (Fetched True 200 JNull) = ((success_true, []), Map.empty) \<and>
   merch_POST sample_env
      (request_with (Some (JObj [(''email'', JStr ''a@b.com''), (''company'', JStr ''Acme'')])))
      (Fetched True 200 ''created'') FetchRejected = (success_true, [])"
proof -
  let ?body = "JObj [(''email'', JStr ''a@b.com''), (''company'', JStr ''Acme'')]"
  have h: "parsed (request_with (Some ?body)) = Some ?body \<and>
      get_field ?body ''company'' = Some (JStr ''Acme'') \<and> trim ''Acme'' \<noteq> []"
    by (simp add: request_with_def trim_def is_space_def)
  note t = honeypot_short_circuit[where req = "request_with (Some ?body)" and body = ?body
      and s = "''Acme''" and env = sample_env]
  from t[where now = 0 and m = Map.empty and up = "Fetched True 200 JNull"] h
  have 1: "newsletter_POST sample_env (request_with (Some ?body)) 0 Map.empty
      (Fetched True 200 JNull) = ((success_true, []), Map.empty)"
    and 2: "newsletter_named_POST sample_env (request_with (Some ?body)) 0 Map.empty
      (Fetched True 200 JNull) = ((success_true, []), Map.empty)"
    by blast+
  from t[where airtable = "Fetched True 200 ''created''" and slack = FetchRejected] h
  have 3: "merch_POST sample_env (request_with (Some ?body))
      (Fetched True 200 ''created'') FetchRejected = (success_true, [])"
    by blast
  from 1 2 3 show ?thesis by blast
qed

subsection \<open>Claim C3\<close>




subsection \<open>Claim C4\<close>

text \<open>
  C4, as stated, fails for requests that an earlier step answers. The body
  \<^verbatim>\<open>{"company": "bot"}\<close> misses the e-mail address and both names, and the named
  newsletter handler answers it with the success response of its honeypot; the body
  \<^verbatim>\<open>{}\<close> misses the full name, and the community handler answers it with 500
  when no environment variable is set.
\<close>

theorem missing_field_not_always_400:
  "field_missing (get_field (JObj [(''company'', JStr ''bot'')]) ''email'') \<and>
   fst (fst (newsletter_named_POST sample_env
               (request_with (Some (JObj [(''company'', JStr ''bot'')]))) 0 Map.empty
               FetchRejected)) = success_true \<and>
   field_missing (get_field (JObj []) ''fullName'') \<and>
   status_of (fst (community_POST sample_URL_origin empty_env (request_with (Some (JObj [])))
                     FetchRejected FetchRejected FetchRejected)) = Some 500"
  by (simp add: field_missing_def handler_defs sample_defs string_defs)

text \<open>
  C4, amended. For every request that reaches the field validation of its handler (at the
  community handler: the origin check passed and the configuration is complete; at the
  newsletter and merch handlers: the honeypot test came out false; everywhere: the body
  parsed to something other than null) and in which a required field is missing (absent,
  or a string that is empty after trimming), the response is a 400 whose message names
  the first such field in the order of the checks, whatever the later fields are, and no
  outbound call is made. The order is: full name, e-mail (community); e-mail, first name,
  last name (newsletter); name, e-mail, size preference (merch). A missing e-mail address
  is reported as "Email is required" when it is absent or the empty string and as
  "Invalid email format" when it is blank.
\<close>

theorem missing_field_rejected:
  "(origin_check U req = OriginOk \<and> missingVars env = [] \<and> parsed req = Some body \<and>
    body \<noteq> JNull \<and> field_missing (get_field body ''fullName'') \<longrightarrow>
      fst (community_POST U env req airtable slack resend) =
        error_only 400 ''fullName is required'' \<and>
      fetches (snd (community_POST U env req airtable slack resend)) = []) \<and>
   (origin_check U req = OriginOk \<and> missingVars env = [] \<and> parsed req = Some body \<and>
    body \<noteq> JNull \<and> \<not> not_filled (get_field body ''fullName'') \<and>
    field_missing (get_field body ''email'') \<longrightarrow>
      fst (community_POST U env req airtable slack resend) =
        error_only 400 ''Valid email is required'' \<and>
      fetches (snd (community_POST U env req airtable slack resend)) = []) \<and>
   (past_honeypot req body \<and> field_missing (get_field body ''email'') \<longrightarrow>
      fst (newsletter_POST env req now m up) =
        (failure 400 (if get_field body ''email'' = None \<or> get_field body ''email'' = Some (JStr [])
                      then ''Email is required'' else ''Invalid email format''), [])) \<and>
   (past_honeypot req body \<and> field_missing (get_field body ''email'') \<longrightarrow>
      fst (newsletter_named_POST env req now m up) =
        (failure 400 (if get_field body ''email'' = None \<or> get_field body ''email'' = Some (JStr [])
                      then ''Email is required'' else ''Invalid email format''), [])) \<and>
   (past_honeypot req body \<and> email_accepted body \<and>
    field_missing (get_field body ''firstName'') \<longrightarrow>
      fst (newsletter_named_POST env req now m up) =
        (failure 400 ''First name is required'', [])) \<and>
   (past_honeypot req body \<and> email_accepted body \<and>
    \<not> not_filled (get_field body ''firstName'') \<and>
    field_missing (get_field body ''lastName'') \<longrightarrow>
      fst (newsletter_named_POST env req now m up) =
        (failure 400 ''Last name is required'', [])) \<and>
   (past_honeypot req body \<and> field_missing (get_field body ''name'') \<longrightarrow>
      merch_POST env req airtable slack = (failure 400 ''Name is required'', [])) \<and>
   (past_honeypot req body \<and> \<not> not_filled (get_field body ''name'') \<and>
    field_missing (get_field body ''email'') \<longrightarrow>
      merch_POST env req airtable slack =
        (failure 400 (if get_field body ''email'' = None \<or> get_field body ''email'' = Some (JStr [])
                      then ''Email is required'' else ''Invalid email format''), [])) \<and>
   (past_honeypot req body \<and> \<not> not_filled (get_field body ''name'') \<and> email_accepted body \<and>
    field_missing (get_field body ''sizePreference'') \<longrightarrow>
      merch_POST env req airtable slack = (failure 400 ''Size preference is required'', []))"
proof (intro conjI impI)
  assume h: "origin_check U req = OriginOk \<and> missingVars env = [] \<and> parsed req = Some body \<and>
    body \<noteq> JNull \<and> field_missing (get_field body ''fullName'')"
  then have n: "not_filled (get_field body ''fullName'')"
    by (simp add: field_missing_not_filled)
  from h n show "fst (community_POST U env req airtable slack resend) =
        error_only 400 ''fullName is required''"
    by (simp add: community_POST_def Let_def)
  from h n show "fetches (snd (community_POST U env req airtable slack resend)) = []"
    by (simp add: community_POST_def Let_def)
next
  assume h: "origin_check U req = OriginOk \<and> missingVars env = [] \<and> parsed req = Some body \<and>
    body \<noteq> JNull \<and> \<not> not_filled (get_field body ''fullName'') \<and>
    field_missing (get_field body ''email'')"
  then have b: "community_email_bad (get_field body ''email'')"
    by (simp add: community_email_bad_iff field_missing_no_at_sign)
  from h b show "fst (community_POST U env req airtable slack resend) =
        error_only 400 ''Valid email is required''"
    by (simp add: community_POST_def Let_def)
  from h b show "fetches (snd (community_POST U env req airtable slack resend)) = []"
    by (simp add: community_POST_def Let_def)
next
  assume "past_honeypot req body \<and> field_missing (get_field body ''email'')"
  then show "fst (newsletter_POST env req now m up) =
        (failure 400 (if get_field body ''email'' = None \<or> get_field body ''email'' = Some (JStr [])
                      then ''Email is required'' else ''Invalid email format''), [])"
    using newsletter_email_missing[of req body] by blast
next
  assume "past_honeypot req body \<and> field_missing (get_field body ''email'')"
  then show "fst (newsletter_named_POST env req now m up) =
        (failure 400 (if get_field body ''email'' = None \<or> get_field body ''email'' = Some (JStr [])
                      then ''Email is required'' else ''Invalid email format''), [])"
    using newsletter_named_email_missing[of req body] by blast
next
  assume "past_honeypot req body \<and> email_accepted body \<and>
    field_missing (get_field body ''firstName'')"
  then show "fst (newsletter_named_POST env req now m up) =
        (failure 400 ''First name is required'', [])"
    using newsletter_named_firstName_missing[of req body] field_missing_not_filled by blast
next
  assume "past_honeypot req body \<and> email_accepted body \<and>
    \<not> not_filled (get_field body ''firstName'') \<and>
    field_missing (get_field body ''lastName'')"
  then show "fst (newsletter_named_POST env req now m up) =
        (failure 400 ''Last name is required'', [])"
    using newsletter_named_lastName_missing[of req body] field_missing_not_filled by blast
next
  assume "past_honeypot req body \<and> field_missing (get_field body ''name'')"
  then show "merch_POST env req airtable slack = (failure 400 ''Name is required'', [])"
    using merch_name_missing[of req body] field_missing_not_filled by blast
next
  assume "past_honeypot req body \<and> \<not> not_filled (get_field body ''name'') \<and>
    field_missing (get_field body ''email'')"
  then show "merch_POST env req airtable slack =
        (failure 400 (if get_field body ''email'' = None \<or> get_field body ''email'' = Some (JStr [])
                      then ''Email is required'' else ''Invalid email format''), [])"
    using merch_email_missing[of req body] by blast
next
  assume "past_honeypot req body \<and> \<not> not_filled (get_field body ''name'') \<and> email_accepted body \<and>
    field_missing (get_field body ''sizePreference'')"
  then show "merch_POST env req airtable slack = (failure 400 ''Size preference is required'', [])"
    using merch_size_missing[of req body] field_missing_not_filled by blast
qed

theorem missing_field_rejected_witness:
  "fst (community_POST sample_URL_origin sample_env
          (request_with (Some (JObj [(''fullName'', JStr []), (''email'', JStr ''a@b.com'')])))
          FetchRejected FetchRejected FetchRejected) = error_only 400 ''fullName is required'' \<and>
   fst (community_POST sample_URL_origin sample_env
          (request_with (Some (JObj [(''fullName'', JStr ''Ada'')])))
          FetchRejected FetchRejected FetchRejected) = error_only 400 ''Valid email is required'' \<and>
   fst (newsletter_POST sample_env (request_with (Some (JObj []))) 0 Map.empty FetchRejected) =
     (failure 400 ''Email is required'', []) \<and>
   fst (newsletter_named_POST sample_env (request_with (Some (JObj [(''email'', JStr ''  '')])))
          0 Map.empty FetchRejected) = (failure 400 ''Invalid email format'', []) \<and>
   fst (newsletter_named_POST sample_env
          (request_with (Some (JObj [(''email'', JStr ''a@b.com''), (''lastName'', JStr ''L'')])))
          0 Map.empty FetchRejected) = (failure 400 ''First name is required'', []) \<and>
   fst (newsletter_named_POST sample_env
          (request_with (Some (JObj [(''email'', JStr ''a@b.com''), (''firstName'', JStr ''Ada''),
                                     (''lastName'', JStr ''  '')])))
          0 Map.empty FetchRejected) = (failure 400 ''Last name is required'', []) \<and>
   merch_POST sample_env (request_with (Some (JObj []))) FetchRejected FetchRejected =
     (failure 400 ''Name is required'', []) \<and>
   merch_POST sample_env (request_with (Some (JObj [(''name'', JStr ''Ada'')])))
     FetchRejected FetchRejected = (failure 400 ''Email is required'', []) \<and>
   merch_POST sample_env
     (request_with (Some (JObj [(''name'', JStr ''Ada''), (''email'', JStr ''a@b.com'')])))
     FetchRejected FetchRejected = (failure 400 ''Size preference is required'', [])"
proof -
  note defs = past_honeypot_def field_missing_def email_accepted_def origin_check_def
    missingVars_def present_def sample_defs string_defs
  note t = missing_field_rejected[where env = sample_env and U = sample_URL_origin
      and now = 0 and m = Map.empty and up = FetchRejected and airtable = FetchRejected
      and slack = FetchRejected and resend = FetchRejected]
  let ?b1 = "JObj [(''fullName'', JStr []), (''email'', JStr ''a@b.com'')]"
  have h1: "origin_check sample_URL_origin (request_with (Some ?b1)) = OriginOk \<and>
      missingVars sample_env = [] \<and> parsed (request_with (Some ?b1)) = Some ?b1 \<and>
      ?b1 \<noteq> JNull \<and> field_missing (get_field ?b1 ''fullName'')"
    by (simp add: defs)
  note c1 = t[where req = "request_with (Some ?b1)" and body = ?b1, THEN conjunct1, THEN mp, OF h1, THEN conjunct1]
  let ?b2 = "JObj [(''fullName'', JStr ''Ada'')]"
  have h2: "origin_check sample_URL_origin (request_with (Some ?b2)) = OriginOk \<and>
      missingVars sample_env = [] \<and> parsed (request_with (Some ?b2)) = Some ?b2 \<and>
      ?b2 \<noteq> JNull \<and> \<not> not_filled (get_field ?b2 ''fullName'') \<and>
      field_missing (get_field ?b2 ''email'')"
    by (simp add: defs)
  note c2 = t[where req = "request_with (Some ?b2)" and body = ?b2, THEN conjunct2, THEN conjunct1, THEN mp, OF h2, THEN conjunct1]
  let ?b3 = "JObj []"
  have h3: "past_honeypot (request_with (Some ?b3)) ?b3 \<and> field_missing (get_field ?b3 ''email'')"
    by (simp add: defs)
  note c3 = t[where req = "request_with (Some ?b3)" and body = ?b3, THEN conjunct2, THEN conjunct2, THEN conjunct1, THEN mp, OF h3]
  let ?b4 = "JObj [(''email'', JStr ''  '')]"
  have h4: "past_honeypot (request_with (Some ?b4)) ?b4 \<and> field_missing (get_field ?b4 ''email'')"
    by (simp add: defs)
  note c4 = t[where req = "request_with (Some ?b4)" and body = ?b4, THEN conjunct2, THEN conjunct2, THEN conjunct2, THEN conjunct1, THEN mp, OF h4]
  let ?b5 = "JObj [(''email'', JStr ''a@b.com''), (''lastName'', JStr ''L'')]"
  have h5: "past_honeypot (request_with (Some ?b5)) ?b5 \<and> email_accepted ?b5 \<and>
      field_missing (get_field ?b5 ''firstName'')"
    by (simp add: defs)
  note c5 = t[where req = "request_with (Some ?b5)" and body = ?b5, THEN conjunct2, THEN conjunct2, THEN conjunct2, THEN conjunct2, THEN conjunct1, THEN mp, OF h5]
  let ?b6 = "JObj [(''email'', JStr ''a@b.com''), (''firstName'', JStr ''Ada''),
                   (''lastName'', JStr ''  '')]"
  have h6: "past_honeypot (request_with (Some ?b6)) ?b6 \<and> email_accepted ?b6 \<and>
      \<not> not_filled (get_field ?b6 ''firstName'') \<and>
      field_missing (get_field ?b6 ''lastName'')"
    by (simp add: defs)
  note c6 = t[where req = "request_with (Some ?b6)" and body = ?b6, THEN conjunct2, THEN conjunct2, THEN conjunct2, THEN conjunct2, THEN conjunct2, THEN conjunct1, THEN mp, OF h6]
  let ?b7 = "JObj []"
  have h7: "past_honeypot (request_with (Some ?b7)) ?b7 \<and> field_missing (get_field ?b7 ''name'')"
    by (simp add: defs)
  note c7 = t[where req = "request_with (Some ?b7)" and body = ?b7, THEN conjunct2, THEN conjunct2, THEN conjunct2, THEN conjunct2, THEN conjunct2, THEN conjunct2, THEN conjunct1, THEN mp, OF h7]
  let ?b8 = "JObj [(''name'', JStr ''Ada'')]"
  have h8: "past_honeypot (request_with (Some ?b8)) ?b8 \<and> \<not> not_filled (get_field ?b8 ''name'') \<and>
      field_missing (get_field ?b8 ''email'')"
    by (simp add: defs)
  note c8 = t[where req = "request_with (Some ?b8)" and body = ?b8, THEN conjunct2, THEN conjunct2, THEN conjunct2, THEN conjunct2, THEN conjunct2, THEN conjunct2, THEN conjunct2, THEN conjunct1, THEN mp, OF h8]
  let ?b9 = "JObj [(''name'', JStr ''Ada''), (''email'', JStr ''a@b.com'')]"
  have h9: "past_honeypot (request_with (Some ?b9)) ?b9 \<and> \<not> not_filled (get_field ?b9 ''name'') \<and>
      email_accepted ?b9 \<and>
      field_missing (get_field ?b9 ''sizePreference'')"
    by (simp add: defs)
  note c9 = t[where req = "request_with (Some ?b9)" and body = ?b9, THEN conjunct2, THEN conjunct2, THEN conjunct2, THEN conjunct2, THEN conjunct2, THEN conjunct2, THEN conjunct2, THEN conjunct2, THEN mp, OF h9]
  show ?thesis
    by (intro conjI) (use c1 c2 c3 c4 c5 c6 c7 c8 c9 in simp_all)
qed

subsection \<open>Claim C5\<close>

text \<open>
  C5, as stated, fails at the community handler: \<^verbatim>\<open>a@b\<close> has no dot in its domain,
  yet a request with that address is written to Airtable and answered with 200.
\<close>

theorem community_accepts_email_without_dot:
  "\<not> email_shape ''a@b'' \<and>
   fst (community_POST sample_URL_origin sample_env
          (request_with (Some (JObj [(''fullName'', JStr ''Ada''), (''email'', JStr ''a@b'')])))
          (Fetched True 200 ''created'') FetchRejected FetchRejected) =
     json_response 200 [(''ok'', JBool True)] \<and>
   fetches (snd (community_POST sample_URL_origin sample_env
          (request_with (Some (JObj [(''fullName'', JStr ''Ada''), (''email'', JStr ''a@b'')])))
          (Fetched True 200 ''created'') FetchRejected FetchRejected)) =
     [Airtable, Slack, Resend]"
  by (simp add: email_shape_def handler_defs sample_defs string_defs upt_conv_Cons)

text \<open>
  C5, amended. At the newsletter handlers and the merch handler, a request that is past
  the honeypot and whose e-mail field is not a string of the shape local@domain-with-dot
  (a local part that is not empty, an at sign, a domain that contains a dot) is rejected
  with status 400 before any outbound call. The community handler asks less: a request
  that has passed the origin and configuration checks and whose e-mail field is not a
  string containing an at sign is rejected with status 400 before any outbound call; a
  dot in the domain is not required there.
\<close>

theorem email_shape_enforced:
  "(past_honeypot req body \<and> \<not> shaped_email (get_field body ''email'') \<longrightarrow>
      status_of (fst (fst (newsletter_POST env req now m up))) = Some 400 \<and>
      snd (fst (newsletter_POST env req now m up)) = []) \<and>
   (past_honeypot req body \<and> \<not> shaped_email (get_field body ''email'') \<longrightarrow>
      status_of (fst (fst (newsletter_named_POST env req now m up))) = Some 400 \<and>
      snd (fst (newsletter_named_POST env req now m up)) = []) \<and>
   (past_honeypot req body \<and> \<not> shaped_email (get_field body ''email'') \<longrightarrow>
      status_of (fst (merch_POST env req airtable slack)) = Some 400 \<and>
      snd (merch_POST env req airtable slack) = []) \<and>
   (origin_check U req = OriginOk \<and> missingVars env = [] \<and> parsed req = Some body \<and>
    body \<noteq> JNull \<and> \<not> has_at_sign (get_field body ''email'') \<longrightarrow>
      status_of (fst (community_POST U env req airtable slack resend)) = Some 400 \<and>
      fetches (snd (community_POST U env req airtable slack resend)) = [])"
proof (intro conjI impI)
  assume h: "past_honeypot req body \<and> \<not> shaped_email (get_field body ''email'')"
  then have n: "\<not> email_accepted body" using email_accepted_shaped by blast
  from h n show "status_of (fst (fst (newsletter_POST env req now m up))) = Some 400"
    using email_rejected_newsletter[of req body] by blast
  from h n show "snd (fst (newsletter_POST env req now m up)) = []"
    using email_rejected_newsletter[of req body] by blast
next
  assume h: "past_honeypot req body \<and> \<not> shaped_email (get_field body ''email'')"
  then have n: "\<not> email_accepted body" using email_accepted_shaped by blast
  from h n show "status_of (fst (fst (newsletter_named_POST env req now m up))) = Some 400"
    using email_rejected_newsletter_named[of req body] by blast
  from h n show "snd (fst (newsletter_named_POST env req now m up)) = []"
    using email_rejected_newsletter_named[of req body] by blast
next
  assume h: "past_honeypot req body \<and> \<not> shaped_email (get_field body ''email'')"
  then have n: "\<not> email_accepted body" using email_accepted_shaped by blast
  from h n show "status_of (fst (merch_POST env req airtable slack)) = Some 400"
    using email_rejected_merch[of req body] by blast
  from h n show "snd (merch_POST env req airtable slack) = []"
    using email_rejected_merch[of req body] by blast
next
  assume h: "origin_check U req = OriginOk \<and> missingVars env = [] \<and> parsed req = Some body \<and>
    body \<noteq> JNull \<and> \<not> has_at_sign (get_field body ''email'')"
  then have b: "community_email_bad (get_field body ''email'')"
    by (simp add: community_email_bad_iff)
  from h b show "status_of (fst (community_POST U env req airtable slack resend)) = Some 400"
    by (simp add: community_POST_def Let_def)
  from h b show "fetches (snd (community_POST U env req airtable slack resend)) = []"
    by (simp add: community_POST_def Let_def)
qed

theorem email_shape_enforced_witness:
  "status_of (fst (fst (newsletter_POST sample_env
      (request_with (Some (JObj [(''name'', JStr ''Ada''), (''fullName'', JStr ''Ada''),
                                 (''email'', JStr ''ab.com'')]))) 0 Map.empty
      (Fetched True 200 JNull)))) = Some 400 \<and>
   status_of (fst (fst (newsletter_named_POST sample_env
      (request_with (Some (JObj [(''name'', JStr ''Ada''), (''fullName'', JStr ''Ada''),
                                 (''email'', JStr ''ab.com'')]))) 0 Map.empty
      (Fetched True 200 JNull)))) = Some 400 \<and>
   status_of (fst (merch_POST sample_env
      (request_with (Some (JObj [(''name'', JStr ''Ada''), (''fullName'', JStr ''Ada''),
                                 (''email'', JStr ''ab.com'')])))
      (Fetched True 200 ''created'') FetchRejected)) = Some 400 \<and>
   status_of (fst (community_POST sample_URL_origin sample_env
      (request_with (Some (JObj [(''name'', JStr ''Ada''), (''fullName'', JStr ''Ada''),
                                 (''email'', JStr ''ab.com'')])))
      (Fetched True 200 ''created'') FetchRejected FetchRejected)) = Some 400"
proof -
  let ?body = "JObj [(''name'', JStr ''Ada''), (''fullName'', JStr ''Ada''),
                                 (''email'', JStr ''ab.com'')]"
  let ?req = "request_with (Some ?body)"
  have p: "past_honeypot ?req ?body"
    by (simp add: past_honeypot_def honeypot_def request_with_def)
  have n: "\<not> shaped_email (get_field ?body ''email'')"
    by (simp add: shaped_email_def email_shape_def upt_conv_Cons)
  have a: "\<not> has_at_sign (get_field ?body ''email'')"
    by (simp add: has_at_sign_def)
  have c: "origin_check sample_URL_origin ?req = OriginOk \<and> missingVars sample_env = [] \<and>
      parsed ?req = Some ?body \<and> ?body \<noteq> JNull"
    by (simp add: origin_check_def missingVars_def present_def sample_defs)
  note t = email_shape_enforced[where req = ?req and body = ?body and env = sample_env]
  from t[where now = 0 and m = Map.empty and up = "Fetched True 200 JNull"] p n
  have 1: "status_of (fst (fst (newsletter_POST sample_env ?req 0 Map.empty
      (Fetched True 200 JNull)))) = Some 400"
    and 2: "status_of (fst (fst (newsletter_named_POST sample_env ?req 0 Map.empty
      (Fetched True 200 JNull)))) = Some 400"
    by blast+
  from t[where airtable = "Fetched True 200 ''created''" and slack = FetchRejected] p n
  have 3: "status_of (fst (merch_POST sample_env ?req (Fetched True 200 ''created'')
      FetchRejected)) = Some 400"
    by blast
  from t[where U = sample_URL_origin and airtable = "Fetched True 200 ''created''"
      and slack = FetchRejected and resend = FetchRejected] c a
  have 4: "status_of (fst (community_POST sample_URL_origin sample_env ?req
      (Fetched True 200 ''created'') FetchRejected FetchRejected)) = Some 400"
    by blast
  from 1 2 3 4 show ?thesis by blast
qed

subsection \<open>Claim C6\<close>

text \<open>
  C6, as stated, fails at the newsletter and merch handlers: with no environment variable
  set, a request whose body does not parse gets 400 "Invalid JSON" from the newsletter
  handler, and a request with the honeypot filled gets the success response from the
  merch handler; neither gets the server-misconfigured outcome.
\<close>

theorem configuration_not_checked_first:
  "\<not> newsletter_configured empty_env \<and>
   fst (fst (newsletter_POST empty_env (request_with None) 0 Map.empty FetchRejected)) =
     failure 400 ''Invalid JSON'' \<and>
   \<not> merch_configured empty_env \<and>
   fst (merch_POST empty_env (request_with (Some (JObj [(''company'', JStr ''bot'')])))
          FetchRejected FetchRejected) = success_true"
  by (simp add: handler_defs sample_defs string_defs newsletter_configured_def
        merch_configured_def)

text \<open>
  C6, amended. The community handler checks its configuration right after the origin
  check and before it parses the body: a request that passes the origin check while a
  required variable is missing gets the server-misconfigured response (500, with the
  list of missing keys) whatever its body is, and no outbound call is made. The
  newsletter handlers check their configuration after body parsing, the honeypot, field
  validation and rate limiting, the merch handler after body parsing, the honeypot and
  field validation: while a required variable is missing, the requests that get the
  server-misconfigured response (500) are exactly those that pass these earlier steps.
\<close>

theorem configuration_check_position:
  "(origin_check U req = OriginOk \<and> missingVars env \<noteq> [] \<longrightarrow>
      fst (community_POST U env req airtable slack resend) =
        json_response 500 [(''error'', JStr ''Server configuration error''),
                           (''missing'', JArr (map JStr (missingVars env)))] \<and>
      fetches (snd (community_POST U env req airtable slack resend)) = []) \<and>
   (\<not> newsletter_configured env \<longrightarrow>
      (fst (fst (newsletter_POST env req now m up)) = failure 500 ''Server configuration error'' \<longleftrightarrow>
       newsletter_accepts req \<and> fst (checkRateLimit now (clientIp req) m))) \<and>
   (\<not> newsletter_configured env \<longrightarrow>
      (fst (fst (newsletter_named_POST env req now m up)) =
         failure 500 ''Server configuration error'' \<longleftrightarrow>
       newsletter_named_accepts req \<and> fst (checkRateLimit now (clientIp req) m))) \<and>
   (\<not> merch_configured env \<longrightarrow>
      (fst (merch_POST env req airtable slack) = failure 500 ''Server error'' \<longleftrightarrow>
       merch_validated req))"
proof (intro conjI impI)
  assume h: "origin_check U req = OriginOk \<and> missingVars env \<noteq> []"
  then show "fst (community_POST U env req airtable slack resend) =
        json_response 500 [(''error'', JStr ''Server configuration error''),
                           (''missing'', JArr (map JStr (missingVars env)))]"
    by (simp add: community_POST_def)
  from h show "fetches (snd (community_POST U env req airtable slack resend)) = []"
    by (simp add: community_POST_def)
next
  assume c: "\<not> newsletter_configured env"
  show "fst (fst (newsletter_POST env req now m up)) = failure 500 ''Server configuration error'' \<longleftrightarrow>
       newsletter_accepts req \<and> fst (checkRateLimit now (clientIp req) m)"
  proof (cases "newsletter_accepts req")
    case False
    from newsletter_not_accepted[OF this, of env now m up]
    have "status_of (fst (fst (newsletter_POST env req now m up))) \<noteq> Some 500"
      by auto
    with False show ?thesis by auto
  next
    case True
    have "failure 429 ''Too many requests. Please try again later.'' \<noteq>
        failure 500 ''Server configuration error''"
      by (simp add: failure_def json_response_def)
    with True c show ?thesis by (simp add: newsletter_accepted)
  qed
next
  assume c: "\<not> newsletter_configured env"
  show "fst (fst (newsletter_named_POST env req now m up)) =
         failure 500 ''Server configuration error'' \<longleftrightarrow>
       newsletter_named_accepts req \<and> fst (checkRateLimit now (clientIp req) m)"
  proof (cases "newsletter_named_accepts req")
    case False
    from newsletter_named_not_accepted[OF this, of env now m up]
    have "status_of (fst (fst (newsletter_named_POST env req now m up))) \<noteq> Some 500"
      by auto
    with False show ?thesis by auto
  next
    case True
    have "failure 429 ''Too many requests. Please try again later.'' \<noteq>
        failure 500 ''Server configuration error''"
      by (simp add: failure_def json_response_def)
    with True c show ?thesis by (simp add: newsletter_named_accepted)
  qed
next
  assume c: "\<not> merch_configured env"
  show "fst (merch_POST env req airtable slack) = failure 500 ''Server error'' \<longleftrightarrow>
       merch_validated req"
  proof (cases "merch_validated req")
    case False
    from merch_not_validated_status[OF this, of env airtable slack]
    have "status_of (fst (merch_POST env req airtable slack)) \<noteq> Some 500"
      by auto
    with False show ?thesis by auto
  next
    case True
    with c show ?thesis by (simp add: merch_validated_result)
  qed
qed

theorem configuration_check_position_witness:
  "fst (community_POST sample_URL_origin empty_env (request_with None)
          FetchRejected FetchRejected FetchRejected) =
     json_response 500
       [(''error'', JStr ''Server configuration error''),
        (''missing'', JArr [JStr ''AIRTABLE_PAT'', JStr ''AIRTABLE_BASE_ID'',
                            JStr ''AIRTABLE_TABLE_ID or AIRTABLE_TABLE_NAME''])] \<and>
   fst (fst (newsletter_POST empty_env sample_newsletter_request 0 Map.empty FetchRejected)) =
     failure 500 ''Server configuration error'' \<and>
   fst (fst (newsletter_named_POST empty_env sample_named_request 0 Map.empty FetchRejected)) =
     failure 500 ''Server configuration error'' \<and>
   fst (merch_POST empty_env sample_merch_request FetchRejected FetchRejected) =
     failure 500 ''Server error''"
proof -
  have o: "origin_check sample_URL_origin (request_with None) = OriginOk \<and>
      missingVars empty_env \<noteq> []"
    by (simp add: origin_check_def missingVars_def present_def sample_defs)
  have mv: "missingVars empty_env =
      [''AIRTABLE_PAT'', ''AIRTABLE_BASE_ID'', ''AIRTABLE_TABLE_ID or AIRTABLE_TABLE_NAME'']"
    by (simp add: missingVars_def present_def sample_defs)
  have nc: "\<not> newsletter_configured empty_env" and mc: "\<not> merch_configured empty_env"
    by (simp_all add: newsletter_configured_def merch_configured_def present_def sample_defs)
  have na: "newsletter_accepts sample_newsletter_request"
    by (simp add: newsletter_accepts_def past_honeypot_def email_accepted_def sample_defs
          string_defs)
  have nna: "newsletter_named_accepts sample_named_request"
    by (simp add: newsletter_named_accepts_def past_honeypot_def email_accepted_def sample_defs
          string_defs)
  have mval: "merch_validated sample_merch_request"
    by (simp add: merch_validated_def past_honeypot_def email_accepted_def
          interestedIn_throws_def sample_defs string_defs)
  have al: "fst (checkRateLimit 0 (clientIp sample_newsletter_request) Map.empty)"
    "fst (checkRateLimit 0 (clientIp sample_named_request) Map.empty)"
    by (simp_all add: checkRateLimit_def)
  note t = configuration_check_position[where env = empty_env and now = 0 and m = Map.empty
      and up = FetchRejected and airtable = FetchRejected and slack = FetchRejected]
  from t[where U = sample_URL_origin and req = "request_with None" and resend = FetchRejected] o
  have 1: "fst (community_POST sample_URL_origin empty_env (request_with None)
          FetchRejected FetchRejected FetchRejected) =
     json_response 500 [(''error'', JStr ''Server configuration error''),
                        (''missing'', JArr (map JStr (missingVars empty_env)))]"
    by blast
  from t[where req = sample_newsletter_request] nc na al
  have 2: "fst (fst (newsletter_POST empty_env sample_newsletter_request 0 Map.empty
      FetchRejected)) = failure 500 ''Server configuration error''"
    by blast
  from t[where req = sample_named_request] nc nna al
  have 3: "fst (fst (newsletter_named_POST empty_env sample_named_request 0 Map.empty
      FetchRejected)) = failure 500 ''Server configuration error''"
    by blast
  from t[where req = sample_merch_request] mc mval
  have 4: "fst (merch_POST empty_env sample_merch_request FetchRejected FetchRejected) =
     failure 500 ''Server error''"
    by blast
  from 1 2 3 4 show ?thesis by (simp add: mv)
qed

subsection \<open>Claim C7\<close>

text \<open>
  C7. When the write to the record store is made and succeeds, the response is the
  success outcome with status 200, whatever the notifications that follow come back
  with: the Slack webhook and the Resend call of the community handler, the Slack
  webhook of the merch handler (each may answer with success, answer with an error status,
  or reject). The newsletter handlers, which send no notification, answer 200 as well
  when the contact list accepts the contact.
\<close>

theorem success_despite_notifications:
  "(Fetch Airtable \<in> set (snd (community_POST U env req (Fetched True st txt) slack resend)) \<longrightarrow>
      fst (community_POST U env req (Fetched True st txt) slack resend) =
        json_response 200 [(''ok'', JBool True)]) \<and>
   (Fetch Airtable \<in> set (snd (merch_POST env req (Fetched True st txt) slack)) \<longrightarrow>
      fst (merch_POST env req (Fetched True st txt) slack) = success_true) \<and>
   (Fetch EmailOctopus \<in> set (snd (fst (newsletter_POST env req now m (Fetched True st data)))) \<longrightarrow>
      fst (fst (newsletter_POST env req now m (Fetched True st data))) = success_true) \<and>
   (Fetch EmailOctopus \<in> set (snd (fst (newsletter_named_POST env req now m (Fetched True st data)))) \<longrightarrow>
      fst (fst (newsletter_named_POST env req now m (Fetched True st data))) = success_true)"
proof (intro conjI impI)
  assume "Fetch Airtable \<in> set (snd (community_POST U env req (Fetched True st txt) slack resend))"
  from community_fetch_result[OF this]
  show "fst (community_POST U env req (Fetched True st txt) slack resend) =
        json_response 200 [(''ok'', JBool True)]"
    by (auto simp: community_write_def)
next
  assume "Fetch Airtable \<in> set (snd (merch_POST env req (Fetched True st txt) slack))"
  from merch_fetch_result[OF this]
  show "fst (merch_POST env req (Fetched True st txt) slack) = success_true"
    by (simp add: merch_write_def)
next
  assume "Fetch EmailOctopus \<in> set (snd (fst (newsletter_POST env req now m (Fetched True st data))))"
  from newsletter_fetch_result[OF this]
  show "fst (fst (newsletter_POST env req now m (Fetched True st data))) = success_true"
    by (simp add: newsletter_subscribe_def)
next
  assume "Fetch EmailOctopus \<in> set (snd (fst (newsletter_named_POST env req now m (Fetched True st data))))"
  from newsletter_named_fetch_result[OF this]
  show "fst (fst (newsletter_named_POST env req now m (Fetched True st data))) = success_true"
    by (simp add: newsletter_named_subscribe_def)
qed

theorem success_despite_notifications_witness:
  "fetches (snd (community_POST sample_URL_origin sample_env sample_community_request
                   (Fetched True 200 ''created'') FetchRejected (Fetched False 500 ''down''))) =
     [Airtable, Slack, Resend] \<and>
   fst (community_POST sample_URL_origin sample_env sample_community_request
          (Fetched True 200 ''created'') FetchRejected (Fetched False 500 ''down'')) =
     json_response 200 [(''ok'', JBool True)] \<and>
   fetches (snd (merch_POST sample_env sample_merch_request (Fetched True 200 ''created'')
                   (Fetched False 500 ''down''))) = [Airtable, Slack] \<and>
   fst (merch_POST sample_env sample_merch_request (Fetched True 200 ''created'')
          (Fetched False 500 ''down'')) = success_true \<and>
   fst (fst (newsletter_POST sample_env sample_newsletter_request 0 Map.empty
               (Fetched True 200 JNull))) = success_true \<and>
   fst (fst (newsletter_named_POST sample_env sample_named_request 0 Map.empty
               (Fetched True 200 JNull))) = success_true"
proof -
  have c: "fetches (snd (community_POST sample_URL_origin sample_env sample_community_request
                   (Fetched True 200 ''created'') FetchRejected (Fetched False 500 ''down''))) =
     [Airtable, Slack, Resend]"
    by (simp add: handler_defs sample_defs string_defs)
  have c': "Fetch Airtable \<in> set (snd (community_POST sample_URL_origin sample_env
        sample_community_request (Fetched True 200 ''created'') FetchRejected (Fetched False 500 ''down'')))"
    by (simp add: handler_defs sample_defs string_defs)
  have d: "fetches (snd (merch_POST sample_env sample_merch_request (Fetched True 200 ''created'')
                   (Fetched False 500 ''down''))) = [Airtable, Slack]"
    by (simp add: handler_defs sample_defs string_defs)
  have d': "Fetch Airtable \<in> set (snd (merch_POST sample_env sample_merch_request
        (Fetched True 200 ''created'') (Fetched False 500 ''down'')))"
    by (simp add: handler_defs sample_defs string_defs)
  have e: "Fetch EmailOctopus \<in> set (snd (fst (newsletter_POST sample_env
        sample_newsletter_request 0 Map.empty (Fetched True 200 JNull))))"
    by (simp add: handler_defs sample_defs string_defs)
  have f: "Fetch EmailOctopus \<in> set (snd (fst (newsletter_named_POST sample_env
        sample_named_request 0 Map.empty (Fetched True 200 JNull))))"
    by (simp add: handler_defs sample_defs string_defs)
  note t = success_despite_notifications[where env = sample_env and st = 200]
  from t[where U = sample_URL_origin and req = sample_community_request and ?txt = "''created''"
        and slack = FetchRejected and resend = "Fetched False 500 ''down''"] c'
  have 1: "fst (community_POST sample_URL_origin sample_env sample_community_request
          (Fetched True 200 ''created'') FetchRejected (Fetched False 500 ''down'')) =
     json_response 200 [(''ok'', JBool True)]"
    by blast
  from t[where req = sample_merch_request and ?txt = "''created''"
        and slack = "Fetched False 500 ''down''"] d'
  have 2: "fst (merch_POST sample_env sample_merch_request (Fetched True 200 ''created'')
          (Fetched False 500 ''down'')) = success_true"
    by blast
  from t[where req = sample_newsletter_request and now = 0 and m = Map.empty and data = JNull] e
  have 3: "fst (fst (newsletter_POST sample_env sample_newsletter_request 0 Map.empty
               (Fetched True 200 JNull))) = success_true"
    by blast
  from t[where req = sample_named_request and now = 0 and m = Map.empty and data = JNull] f
  have 4: "fst (fst (newsletter_named_POST sample_env sample_named_request 0 Map.empty
               (Fetched True 200 JNull))) = success_true"
    by blast
  from c d 1 2 3 4 show ?thesis by blast
qed

subsection \<open>Claim C8\<close>

text \<open>
  C8, as stated, fails at the newsletter and merch handlers: the newsletter handler
  answers a request with the same body \<^verbatim>\<open>{success: false, error: "Server
  configuration error"}\<close> whether the API key or the list identifier is the variable
  that is missing, and the merch handler answers with \<^verbatim>\<open>{success: false, error:
  "Server error"}\<close>; neither names a key.
\<close>

theorem misconfiguration_not_enumerated:
  "fst (fst (newsletter_POST
               \<lparr>vars = map_of [(''EMAILOCTOPUS_LIST_ID'', ''list1'')], isProduction = False\<rparr>
               sample_newsletter_request 0 Map.empty FetchRejected)) =
     json_response 500 [(''success'', JBool False), (''error'', JStr ''Server configuration error'')] \<and>
   fst (fst (newsletter_POST
               \<lparr>vars = map_of [(''EMAILOCTOPUS_API_KEY'', ''eo'')], isProduction = False\<rparr>
               sample_newsletter_request 0 Map.empty FetchRejected)) =
     json_response 500 [(''success'', JBool False), (''error'', JStr ''Server configuration error'')] \<and>
   fst (merch_POST empty_env sample_merch_request FetchRejected FetchRejected) =
     json_response 500 [(''success'', JBool False), (''error'', JStr ''Server error'')]"
  by (simp add: handler_defs sample_defs string_defs failure_def)

text \<open>
  C8, amended. At the community handler, a request that passes the origin check while a
  required variable is missing gets status 500 with a body whose \<^verbatim>\<open>missing\<close>
  member lists exactly the keys that are absent: \<^verbatim>\<open>AIRTABLE_PAT\<close> when that
  variable is unset or empty, \<^verbatim>\<open>AIRTABLE_BASE_ID\<close> likewise, and
  \<^verbatim>\<open>AIRTABLE_TABLE_ID or AIRTABLE_TABLE_NAME\<close> when both of these are. The list
  holds these fixed names only, never a value of the environment. The newsletter and merch
  handlers answer a missing variable with status 500 and one fixed message that names no
  key.
\<close>

theorem misconfiguration_response:
  "(origin_check U req = OriginOk \<and> missingVars env \<noteq> [] \<longrightarrow>
      fst (community_POST U env req airtable slack resend) =
        json_response 500 [(''error'', JStr ''Server configuration error''),
                           (''missing'', JArr (map JStr (missingVars env)))]) \<and>
   (''AIRTABLE_PAT'' \<in> set (missingVars env) \<longleftrightarrow> \<not> present (vars env ''AIRTABLE_PAT'')) \<and>
   (''AIRTABLE_BASE_ID'' \<in> set (missingVars env) \<longleftrightarrow> \<not> present (vars env ''AIRTABLE_BASE_ID'')) \<and>
   (''AIRTABLE_TABLE_ID or AIRTABLE_TABLE_NAME'' \<in> set (missingVars env) \<longleftrightarrow>
      \<not> present (vars env ''AIRTABLE_TABLE_ID'') \<and> \<not> present (vars env ''AIRTABLE_TABLE_NAME'')) \<and>
   set (missingVars env) \<subseteq>
     {''AIRTABLE_PAT'', ''AIRTABLE_BASE_ID'', ''AIRTABLE_TABLE_ID or AIRTABLE_TABLE_NAME''} \<and>
   (\<not> newsletter_configured env \<and>
    status_of (fst (fst (newsletter_POST env req now m up))) = Some 500 \<longrightarrow>
      fst (fst (newsletter_POST env req now m up)) = failure 500 ''Server configuration error'') \<and>
   (\<not> newsletter_configured env \<and>
    status_of (fst (fst (newsletter_named_POST env req now m up))) = Some 500 \<longrightarrow>
      fst (fst (newsletter_named_POST env req now m up)) =
        failure 500 ''Server configuration error'') \<and>
   (\<not> merch_configured env \<and> status_of (fst (merch_POST env req airtable slack)) = Some 500 \<longrightarrow>
      fst (merch_POST env req airtable slack) = failure 500 ''Server error'')"
proof (intro conjI impI)
  assume "origin_check U req = OriginOk \<and> missingVars env \<noteq> []"
  then show "fst (community_POST U env req airtable slack resend) =
        json_response 500 [(''error'', JStr ''Server configuration error''),
                           (''missing'', JArr (map JStr (missingVars env)))]"
    by (simp add: community_POST_def)
next
  show "''AIRTABLE_PAT'' \<in> set (missingVars env) \<longleftrightarrow> \<not> present (vars env ''AIRTABLE_PAT'')"
    by (simp add: missingVars_def)
next
  show "''AIRTABLE_BASE_ID'' \<in> set (missingVars env) \<longleftrightarrow>
      \<not> present (vars env ''AIRTABLE_BASE_ID'')"
    by (simp add: missingVars_def)
next
  show "''AIRTABLE_TABLE_ID or AIRTABLE_TABLE_NAME'' \<in> set (missingVars env) \<longleftrightarrow>
      \<not> present (vars env ''AIRTABLE_TABLE_ID'') \<and> \<not> present (vars env ''AIRTABLE_TABLE_NAME'')"
    by (simp add: missingVars_def)
next
  show "set (missingVars env) \<subseteq>
     {''AIRTABLE_PAT'', ''AIRTABLE_BASE_ID'', ''AIRTABLE_TABLE_ID or AIRTABLE_TABLE_NAME''}"
    by (auto simp: missingVars_def split: if_splits)
next
  assume h: "\<not> newsletter_configured env \<and>
    status_of (fst (fst (newsletter_POST env req now m up))) = Some 500"
  show "fst (fst (newsletter_POST env req now m up)) = failure 500 ''Server configuration error''"
  proof (cases "newsletter_accepts req")
    case False
    from newsletter_not_accepted[OF this, of env now m up] h show ?thesis by auto
  next
    case True
    with h show ?thesis by (simp add: newsletter_accepted split: if_splits)
  qed
next
  assume h: "\<not> newsletter_configured env \<and>
    status_of (fst (fst (newsletter_named_POST env req now m up))) = Some 500"
  show "fst (fst (newsletter_named_POST env req now m up)) =
      failure 500 ''Server configuration error''"
  proof (cases "newsletter_named_accepts req")
    case False
    from newsletter_named_not_accepted[OF this, of env now m up] h show ?thesis by auto
  next
    case True
    with h show ?thesis by (simp add: newsletter_named_accepted split: if_splits)
  qed
next
  assume h: "\<not> merch_configured env \<and>
    status_of (fst (merch_POST env req airtable slack)) = Some 500"
  show "fst (merch_POST env req airtable slack) = failure 500 ''Server error''"
  proof (cases "merch_validated req")
    case False
    from merch_not_validated_status[OF this, of env airtable slack] h show ?thesis by auto
  next
    case True
    with h show ?thesis by (simp add: merch_validated_result)
  qed
qed

theorem misconfiguration_response_witness:
  "fst (community_POST sample_URL_origin
          \<lparr>vars = map_of [(''AIRTABLE_PAT'', ''pat''), (''AIRTABLE_TABLE_NAME'', ''Applications'')],
           isProduction = True\<rparr>
          sample_community_request FetchRejected FetchRejected FetchRejected) =
     json_response 500 [(''error'', JStr ''Server configuration error''),
                        (''missing'', JArr [JStr ''AIRTABLE_BASE_ID''])] \<and>
   fst (fst (newsletter_POST empty_env sample_newsletter_request 0 Map.empty FetchRejected)) =
     failure 500 ''Server configuration error'' \<and>
   fst (fst (newsletter_named_POST empty_env sample_named_request 0 Map.empty FetchRejected)) =
     failure 500 ''Server configuration error'' \<and>
   fst (merch_POST empty_env sample_merch_request FetchRejected FetchRejected) =
     failure 500 ''Server error''"
proof -
  let ?env = "\<lparr>vars = map_of [(''AIRTABLE_PAT'', ''pat''), (''AIRTABLE_TABLE_NAME'', ''Applications'')],
           isProduction = True\<rparr>"
  have mv: "missingVars ?env = [''AIRTABLE_BASE_ID'']"
    by (simp add: missingVars_def present_def)
  have o: "origin_check sample_URL_origin sample_community_request = OriginOk \<and>
      missingVars ?env \<noteq> []"
    by (simp add: missingVars_def present_def origin_check_def sample_defs)
  have nc: "\<not> newsletter_configured empty_env" and mc: "\<not> merch_configured empty_env"
    by (simp_all add: newsletter_configured_def merch_configured_def present_def sample_defs)
  have s1: "status_of (fst (fst (newsletter_POST empty_env sample_newsletter_request 0 Map.empty
      FetchRejected))) = Some 500"
    by (simp add: handler_defs sample_defs string_defs)
  have s2: "status_of (fst (fst (newsletter_named_POST empty_env sample_named_request 0 Map.empty
      FetchRejected))) = Some 500"
    by (simp add: handler_defs sample_defs string_defs)
  have s3: "status_of (fst (merch_POST empty_env sample_merch_request FetchRejected
      FetchRejected)) = Some 500"
    by (simp add: handler_defs sample_defs string_defs)
  from misconfiguration_response[where U = sample_URL_origin and req = sample_community_request
      and env = ?env and airtable = FetchRejected and slack = FetchRejected
      and resend = FetchRejected] o
  have 1: "fst (community_POST sample_URL_origin ?env sample_community_request
      FetchRejected FetchRejected FetchRejected) =
     json_response 500 [(''error'', JStr ''Server configuration error''),
                        (''missing'', JArr (map JStr (missingVars ?env)))]"
    by blast
  note t = misconfiguration_response[where env = empty_env and now = 0 and m = Map.empty
      and up = FetchRejected and airtable = FetchRejected and slack = FetchRejected]
  from t[where req = sample_newsletter_request] nc s1
  have 2: "fst (fst (newsletter_POST empty_env sample_newsletter_request 0 Map.empty
      FetchRejected)) = failure 500 ''Server configuration error''"
    by blast
  from t[where req = sample_named_request] nc s2
  have 3: "fst (fst (newsletter_named_POST empty_env sample_named_request 0 Map.empty
      FetchRejected)) = failure 500 ''Server configuration error''"
    by blast
  from t[where req = sample_merch_request] mc s3
  have 4: "fst (merch_POST empty_env sample_merch_request FetchRejected FetchRejected) =
     failure 500 ''Server error''"
    by blast
  from 1[unfolded mv] 2 3 4 show ?thesis by simp
qed

subsection \<open>Claim C9\<close>

text \<open>
  C9. At both newsletter handlers, when the call that creates the contact is made and
  EmailOctopus answers with a non-success response whose \<^verbatim>\<open>error.message\<close> is a
  string that contains "already subscribed", "already pending" or "is already on the
  list", the response is 200 with \<^verbatim>\<open>{success: true}\<close>.
\<close>

theorem newsletter_already_listed_is_success:
  "(Fetch EmailOctopus \<in> set (snd (fst (newsletter_POST env req now m (Fetched False st data)))) \<and>
    opt_field (opt_field (Some data) ''error'') ''message'' = Some (JStr msg) \<and>
    (str_includes msg ''already subscribed'' \<or> str_includes msg ''already pending'' \<or>
     str_includes msg ''is already on the list'') \<longrightarrow>
    fst (fst (newsletter_POST env req now m (Fetched False st data))) = success_true) \<and>
   (Fetch EmailOctopus \<in> set (snd (fst (newsletter_named_POST env req now m (Fetched False st data)))) \<and>
    opt_field (opt_field (Some data) ''error'') ''message'' = Some (JStr msg) \<and>
    (str_includes msg ''already subscribed'' \<or> str_includes msg ''already pending'' \<or>
     str_includes msg ''is already on the list'') \<longrightarrow>
    fst (fst (newsletter_named_POST env req now m (Fetched False st data))) = success_true)"
proof (intro conjI impI)
  assume h: "Fetch EmailOctopus \<in> set (snd (fst (newsletter_POST env req now m (Fetched False st data)))) \<and>
    opt_field (opt_field (Some data) ''error'') ''message'' = Some (JStr msg) \<and>
    (str_includes msg ''already subscribed'' \<or> str_includes msg ''already pending'' \<or>
     str_includes msg ''is already on the list'')"
  then have e: "errorMessage data = Some (toLowerCase msg)"
    by (simp add: errorMessage_def)
  from h have "already_listed (toLowerCase msg)"
    by (intro already_listed_lower) simp
  with e have "fst (newsletter_subscribe env (Fetched False st data)) = success_true"
    by (simp add: newsletter_subscribe_def)
  moreover from h have "fst (newsletter_POST env req now m (Fetched False st data)) =
      newsletter_subscribe env (Fetched False st data)"
    by (intro newsletter_fetch_result) simp
  ultimately show "fst (fst (newsletter_POST env req now m (Fetched False st data))) = success_true"
    by simp
next
  assume h: "Fetch EmailOctopus \<in> set (snd (fst (newsletter_named_POST env req now m (Fetched False st data)))) \<and>
    opt_field (opt_field (Some data) ''error'') ''message'' = Some (JStr msg) \<and>
    (str_includes msg ''already subscribed'' \<or> str_includes msg ''already pending'' \<or>
     str_includes msg ''is already on the list'')"
  then have e: "errorMessage data = Some (toLowerCase msg)"
    by (simp add: errorMessage_def)
  from h have "already_listed (toLowerCase msg)"
    by (intro already_listed_lower) simp
  with e have "fst (newsletter_named_subscribe (Fetched False st data)) = success_true"
    by (simp add: newsletter_named_subscribe_def)
  moreover from h have "fst (newsletter_named_POST env req now m (Fetched False st data)) =
      newsletter_named_subscribe (Fetched False st data)"
    by (intro newsletter_named_fetch_result) simp
  ultimately show "fst (fst (newsletter_named_POST env req now m (Fetched False st data))) = success_true"
    by simp
qed

theorem newsletter_already_listed_is_success_witness:
  "fst (fst (newsletter_POST sample_env sample_newsletter_request 0 Map.empty sample_conflict)) =
     success_true \<and>
   fst (fst (newsletter_named_POST sample_env sample_named_request 0 Map.empty sample_conflict)) =
     success_true"
proof -
  let ?data = "JObj [(''error'',
               JObj [(''code'', JStr ''MEMBER_EXISTS_WITH_EMAIL_ADDRESS''),
                     (''message'', JStr ''This email address is already subscribed to this list.'')])]"
  let ?msg = "''This email address is already subscribed to this list.''"
  have c: "sample_conflict = Fetched False 409 ?data"
    by (simp add: sample_conflict_def)
  have called: "Fetch EmailOctopus \<in>
      set (snd (fst (newsletter_POST sample_env sample_newsletter_request 0 Map.empty
                       (Fetched False 409 ?data))))"
    by (simp add: handler_defs sample_defs string_defs)
  have called_named: "Fetch EmailOctopus \<in>
      set (snd (fst (newsletter_named_POST sample_env sample_named_request 0 Map.empty
                       (Fetched False 409 ?data))))"
    by (simp add: handler_defs sample_defs string_defs)
  have message: "opt_field (opt_field (Some ?data) ''error'') ''message'' = Some (JStr ?msg)"
    by simp
  have listed: "str_includes ?msg ''already subscribed''"
    by simp
  note t = newsletter_already_listed_is_success[where data = ?data and msg = ?msg and st = 409
      and env = sample_env and now = 0 and m = Map.empty]
  from t[where req = sample_newsletter_request] called message listed
  have "fst (fst (newsletter_POST sample_env sample_newsletter_request 0 Map.empty
                    (Fetched False 409 ?data))) = success_true"
    by blast
  moreover from t[where req = sample_named_request] called_named message listed
  have "fst (fst (newsletter_named_POST sample_env sample_named_request 0 Map.empty
                    (Fetched False 409 ?data))) = success_true"
    by blast
  ultimately show ?thesis by (simp add: c)
qed

subsection \<open>Claim C10\<close>

text \<open>
  C10. Whatever calls of \<open>checkRateLimit\<close> have been made since the map was created,
  with whatever keys and clock readings, every record in the map has a count between 1
  and 5. A call returns true exactly when it has stored a fresh record for its key or
  incremented the count of the record it found; a call that returns false leaves the map
  as it was.
\<close>

theorem checkRateLimit_count_bounded:
  "(\<forall>ip r. run_calls cs Map.empty ip = Some r \<longrightarrow> 1 \<le> count r \<and> count r \<le> RATE_LIMIT_REQUESTS) \<and>
   (\<forall>now ip m. fst (checkRateLimit now ip m) =
        stored_or_incremented now (m ip) (snd (checkRateLimit now ip m) ip)) \<and>
   (\<forall>now ip m. \<not> fst (checkRateLimit now ip m) \<longrightarrow> snd (checkRateLimit now ip m) = m)"
proof (intro conjI allI impI)
  fix ip r
  assume "run_calls cs Map.empty ip = Some r"
  moreover have "count_inv (run_calls cs Map.empty)"
    by (rule count_inv_run[OF count_inv_empty])
  ultimately show "1 \<le> count r" "count r \<le> RATE_LIMIT_REQUESTS"
    by (simp_all add: count_inv_def)
next
  fix now ip m
  show "fst (checkRateLimit now ip m) =
        stored_or_incremented now (m ip) (snd (checkRateLimit now ip m) ip)"
    by (rule verdict_iff)
next
  fix now ip and m :: rateLimitMap
  assume "\<not> fst (checkRateLimit now ip m)"
  then show "snd (checkRateLimit now ip m) = m"
    by (rule refused_unchanged)
qed

theorem checkRateLimit_count_bounded_witness:
  "run_calls [(0, ''10.0.0.1''), (1, ''10.0.0.1''), (2, ''10.0.0.2''), (3, ''10.0.0.1''),
              (4, ''10.0.0.1''), (5, ''10.0.0.1''), (6, ''10.0.0.1''), (7, ''10.0.0.1'')]
     Map.empty ''10.0.0.1'' = Some \<lparr>count = 5, resetAt = 60000\<rparr> \<and>
   (1::int) \<le> 5 \<and> (5::int) \<le> RATE_LIMIT_REQUESTS \<and>
   \<not> fst (checkRateLimit 8 ''10.0.0.1'' [''10.0.0.1'' \<mapsto> \<lparr>count = 5, resetAt = 60000\<rparr>]) \<and>
   snd (checkRateLimit 8 ''10.0.0.1'' [''10.0.0.1'' \<mapsto> \<lparr>count = 5, resetAt = 60000\<rparr>]) =
     [''10.0.0.1'' \<mapsto> \<lparr>count = 5, resetAt = 60000\<rparr>]"
proof -
  let ?cs = "[(0, ''10.0.0.1''), (1, ''10.0.0.1''), (2, ''10.0.0.2''), (3, ''10.0.0.1''),
              (4, ''10.0.0.1''), (5, ''10.0.0.1''), (6, ''10.0.0.1''), (7::int, ''10.0.0.1'')]"
  let ?r = "\<lparr>count = 5, resetAt = 60000\<rparr>"
  let ?m = "[''10.0.0.1'' \<mapsto> ?r]"
  have stored: "run_calls ?cs Map.empty ''10.0.0.1'' = Some ?r"
    by (simp add: checkRateLimit_def RATE_LIMIT_REQUESTS_def RATE_LIMIT_WINDOW_MS_def)
  have refused: "\<not> fst (checkRateLimit 8 ''10.0.0.1'' ?m)"
    by (simp add: checkRateLimit_def RATE_LIMIT_REQUESTS_def)
  note all = checkRateLimit_count_bounded[of ?cs]
  from all stored have "1 \<le> count ?r \<and> count ?r \<le> RATE_LIMIT_REQUESTS"
    by blast
  moreover from all refused have "snd (checkRateLimit 8 ''10.0.0.1'' ?m) = ?m"
    by blast
  ultimately show ?thesis
    using stored refused by simp
qed

end
